theory Spec2Isabelle
  imports Main "HOL-Library.Sublist" "HOL-Library.Extended_Nat"
begin

section \<open>Strings and numbers of the host language\<close>

text \<open>
  The extractor is JavaScript. A string is modelled as a \<^typ>\<open>string\<close> whose characters
  are the code units \<open>0..255\<close> (the Latin-1 range of a JavaScript string); the character
  classes below are the JavaScript ones restricted to that range.
\<close>

definition is_digit :: "char \<Rightarrow> bool" where
  \<comment> \<open>the class \<open>\d\<close>\<close>
  "is_digit c = (let n = (of_char c :: nat) in 48 \<le> n \<and> n \<le> 57)"

definition is_line_terminator :: "char \<Rightarrow> bool" where
  \<comment> \<open>what \<open>.\<close> does not match: LF and CR\<close>
  "is_line_terminator c = (let n = (of_char c :: nat) in n = 10 \<or> n = 13)"

definition is_space :: "char \<Rightarrow> bool" where
  \<comment> \<open>the class \<open>\s\<close>, also what \<open>trim\<close> strips: TAB, LF, VT, FF, CR, SP, NBSP\<close>
  "is_space c = (let n = (of_char c :: nat) in (9 \<le> n \<and> n \<le> 13) \<or> n = 32 \<or> n = 160)"

definition is_word_char :: "char \<Rightarrow> bool" where
  \<comment> \<open>the class \<open>\w\<close>: \<open>[A-Za-z0-9_]\<close>\<close>
  "is_word_char c = (let n = (of_char c :: nat) in
     (65 \<le> n \<and> n \<le> 90) \<or> (97 \<le> n \<and> n \<le> 122) \<or> (48 \<le> n \<and> n \<le> 57) \<or> n = 95)"

definition to_lower_char :: "char \<Rightarrow> char" where
  \<comment> \<open>\<open>toLowerCase\<close> on one code unit: \<open>A-Z\<close>, and the Latin-1 capitals \<open>0xC0..0xDE\<close>
      except the multiplication sign \<open>0xD7\<close>\<close>
  "to_lower_char c = (let n = (of_char c :: nat) in
     if (65 \<le> n \<and> n \<le> 90) \<or> (192 \<le> n \<and> n \<le> 222 \<and> n \<noteq> 215) then char_of (n + 32) else c)"

definition toLowerCase :: "string \<Rightarrow> string" where
  "toLowerCase s = map to_lower_char s"

definition trim :: "string \<Rightarrow> string" where
  "trim s = rev (dropWhile is_space (rev (dropWhile is_space s)))"

fun str_includes :: "string \<Rightarrow> string \<Rightarrow> bool" where
  \<comment> \<open>\<open>s.includes(sub)\<close>\<close>
  "str_includes [] sub = (sub = [])"
| "str_includes (c # cs) sub = (prefix sub (c # cs) \<or> str_includes cs sub)"

text \<open>
  Numbers. \<open>parseInt(ds, 10)\<close> on a string of decimal digits is the number value of the
  integer the digits denote: the integer itself up to \<open>2^53\<close>, beyond that the nearest
  double (53 significant bits, ties to even), and \<open>Infinity\<close> once the rounded value
  needs more than 1024 bits. (From the 21st significant digit on, the language lets an
  implementation read a digit as zero; no statement below depends on such a numeral.)
  Only such values arise here, so a number is a natural number (a double that is an
  integer, held exactly) or \<open>Infinity\<close>.
\<close>

datatype jsnum = Num nat | PosInfinity

fun bit_length :: "nat \<Rightarrow> nat" where
  "bit_length n = (if n = 0 then 0 else Suc (bit_length (n div 2)))"

declare bit_length.simps [simp del]

definition round_double :: "nat \<Rightarrow> jsnum" where
  "round_double n =
     (if n < 2 ^ 53 then Num n
      else let e = bit_length n - 53;
               q = n div 2 ^ e;
               r = n mod 2 ^ e;
               half = 2 ^ (e - 1);
               q' = (if half < r \<or> (r = half \<and> odd q) then q + 1 else q)
           in if 1024 < bit_length q' + e then PosInfinity else Num (q' * 2 ^ e))"

definition digit_val :: "char \<Rightarrow> nat" where
  "digit_val c = of_char c - 48"

definition nat_of_digits :: "string \<Rightarrow> nat" where
  "nat_of_digits ds = foldl (\<lambda>a c. 10 * a + digit_val c) 0 ds"

definition parseInt10 :: "string \<Rightarrow> jsnum" where
  \<comment> \<open>\<open>parseInt(ds, 10)\<close> for \<open>ds\<close> matched by \<open>\d+\<close>\<close>
  "parseInt10 ds = round_double (nat_of_digits ds)"

fun dec_string :: "nat \<Rightarrow> string" where
  "dec_string n = (if n < 10 then [char_of (48 + n)] else dec_string (n div 10) @ [char_of (48 + n mod 10)])"

declare dec_string.simps [simp del]

definition number_to_string :: "(nat \<Rightarrow> string) \<Rightarrow> jsnum \<Rightarrow> string" where
  \<comment> \<open>The string a template literal inserts for a number. Up to \<open>2^53\<close> every integer is
      a double and prints as its decimal numeral. Above, the runtime prints the shortest
      digits that read back as the same double; that part is the parameter \<open>large\<close>.\<close>
  "number_to_string large x =
     (case x of
        PosInfinity \<Rightarrow> ''Infinity''
      | Num n \<Rightarrow> if n \<le> 2 ^ 53 then dec_string n else large n)"

definition num_key :: "jsnum \<Rightarrow> enat" where
  \<comment> \<open>the order the comparator \<open>(a, b) => a - b\<close> induces: \<open>Infinity - Infinity\<close> is
      \<open>NaN\<close>, which \<open>sort\<close> takes as equal\<close>
  "num_key x = (case x of Num n \<Rightarrow> enat n | PosInfinity \<Rightarrow> \<infinity>)"

section \<open>Episode identifier codec\<close>

text \<open>
  \<open>match_suffix\<close> matches \<open>-(\d+)x(\d+)$\<close> against the whole of its argument and returns
  the two groups. \<open>match_lazy\<close> is \<open>^(.+?)\<close> in front of it: the lazy group takes one
  more character at a time (never a line terminator) until the rest matches.
\<close>

definition match_suffix :: "string \<Rightarrow> (string \<times> string) option" where
  "match_suffix s =
     (case s of
        [] \<Rightarrow> None
      | c # r \<Rightarrow>
          if c \<noteq> CHR ''-'' then None
          else let d1 = takeWhile is_digit r in
            if d1 = [] then None
            else (case dropWhile is_digit r of
                    [] \<Rightarrow> None
                  | x # d2 \<Rightarrow>
                      if x = CHR ''x'' \<and> d2 \<noteq> [] \<and> list_all is_digit d2 then Some (d1, d2)
                      else None))"

fun match_lazy :: "string \<Rightarrow> string \<Rightarrow> (string \<times> string \<times> string) option" where
  "match_lazy pre [] = None"
| "match_lazy pre (c # cs) =
     (if is_line_terminator c then None
      else (case match_suffix cs of
              Some (d1, d2) \<Rightarrow> Some (pre @ [c], d1, d2)
            | None \<Rightarrow> match_lazy (pre @ [c]) cs))"

definition getSeriesIdFromEpisodeId :: "string \<Rightarrow> string" where
  \<comment> \<open>\<open>episodeId.match(/^(.+?)(?:-\d+x\d+)$/)\<close>, group 1, else the input\<close>
  "getSeriesIdFromEpisodeId episodeId =
     (case match_lazy [] episodeId of
        Some (title, _, _) \<Rightarrow> title
      | None \<Rightarrow> episodeId)"

record episode_identifier =
  animeTitle :: string
  season :: jsnum
  episode :: jsnum

definition parseEpisodeId :: "string \<Rightarrow> episode_identifier option" where
  \<comment> \<open>\<open>episodeId.match(/^(.+?)-(\d+)x(\d+)$/)\<close>; \<open>None\<close> is the \<open>null\<close> it returns\<close>
  "parseEpisodeId episodeId =
     (case match_lazy [] episodeId of
        Some (title, s, e) \<Rightarrow>
          Some \<lparr>animeTitle = title, season = parseInt10 s, episode = parseInt10 e\<rparr>
      | None \<Rightarrow> None)"

definition buildComposite :: "(nat \<Rightarrow> string) \<Rightarrow> string \<Rightarrow> jsnum \<Rightarrow> jsnum \<Rightarrow> string" where
  \<comment> \<open>the template \<open>`${slug}-${season}x${episode}`\<close>\<close>
  "buildComposite large slug s e =
     slug @ ''-'' @ number_to_string large s @ ''x'' @ number_to_string large e"

definition is_numeral :: "string \<Rightarrow> bool" where
  \<comment> \<open>a positive decimal numeral without leading zeros\<close>
  "is_numeral ds = (ds \<noteq> [] \<and> list_all is_digit ds \<and> hd ds \<noteq> CHR ''0'')"

section \<open>Errors\<close>

text \<open>
  An error object, as far as the code reads it: \<open>error.response?.status\<close>,
  \<open>error.status\<close>, \<open>error.message\<close> and \<open>error.code\<close>.
\<close>

record js_error =
  response_status :: "int option"
  status :: "int option"
  message :: "string option"
  code :: "string option"

definition Error :: "string \<Rightarrow> js_error" where
  \<comment> \<open>\<open>new Error(msg)\<close>\<close>
  "Error msg = \<lparr>response_status = None, status = None, message = Some msg, code = None\<rparr>"

section \<open>Page parser\<close>

text \<open>
  The HTML parser and the selector engine are a library. A parsed page is what the
  selectors of \<open>extract\<close> read from it: the \<open>div\<close> elements in document order with their
  \<open>id\<close> attribute and the \<open>src\<close> and \<open>data-src\<close> attributes of their first \<open>iframe\<close>
  (as \<open>extractAttribute\<close> returns them, \<open>None\<close> for an absent one), and, for an option
  id, the outcome of the query for its tab link: the selector is built from the raw id,
  and the library throws when it does not parse (an id with a double quote in it, for
  one); otherwise the outcome is the text that \<open>extractText\<close> returns, empty when there is
  no such link.
\<close>

record div_element =
  div_id :: "string option"
  iframe_src :: "string option"
  iframe_data_src :: "string option"

record page =
  divs :: "div_element list"
  server_label :: "string \<Rightarrow> js_error + string"

record server_entry =
  server :: jsnum
  name :: string
  url :: string

record 'm embed_data =
  embed_id :: string
  servers :: "server_entry list"
  externalApiMapping :: "'m option"

definition select_options :: "page \<Rightarrow> div_element list" where
  \<comment> \<open>the selector \<open>div[id^=options-]\<close>\<close>
  "select_options p =
     filter (\<lambda>d. case div_id d of Some i \<Rightarrow> prefix ''options-'' i | None \<Rightarrow> False) (divs p)"

fun match_options :: "string \<Rightarrow> string option" where
  \<comment> \<open>\<open>optionId.match(/options-(\d+)/)\<close>, group 1: the leftmost place where \<open>options-\<close>
      is followed by a digit, and all the digits there\<close>
  "match_options [] = None"
| "match_options (c # cs) =
     (if prefix ''options-'' (c # cs) \<and> takeWhile is_digit (drop 8 (c # cs)) \<noteq> []
      then Some (takeWhile is_digit (drop 8 (c # cs)))
      else match_options cs)"

definition truthy :: "string option \<Rightarrow> bool" where
  "truthy v = (case v of Some s \<Rightarrow> s \<noteq> [] | None \<Rightarrow> False)"

definition or_else :: "string option \<Rightarrow> string \<Rightarrow> string" where
  \<comment> \<open>\<open>a || b\<close> for a string or absent \<open>a\<close>\<close>
  "or_else v d = (case v of Some s \<Rightarrow> if s \<noteq> [] then s else d | None \<Rightarrow> d)"

definition option_entry ::
  "(nat \<Rightarrow> string) \<Rightarrow> page \<Rightarrow> div_element \<Rightarrow> js_error + server_entry option" where
  \<comment> \<open>the body of the \<open>each\<close> callback: it throws, or pushes an entry, or pushes nothing.
      The query for the tab link comes after the test of the id and before the test of
      \<open>iframeSrc\<close>.\<close>
  "option_entry large p d =
     (case div_id d of
        None \<Rightarrow> Inr None
      | Some optionId \<Rightarrow>
          (case match_options optionId of
             None \<Rightarrow> Inr None
           | Some ds \<Rightarrow>
               let serverNumber = parseInt10 ds;
                   iframeSrc = or_else (iframe_src d) (or_else (iframe_data_src d) [])
               in (case server_label p optionId of
                     Inl selectorError \<Rightarrow> Inl selectorError
                   | Inr text \<Rightarrow>
                       let serverName = trim text
                       in if iframeSrc \<noteq> []
                          then Inr (Some \<lparr>server = serverNumber,
                                          name = (if serverName \<noteq> [] then serverName
                                                  else ''Server '' @ number_to_string large serverNumber),
                                          url = iframeSrc\<rparr>)
                          else Inr None)))"

fun each_option ::
  "(nat \<Rightarrow> string) \<Rightarrow> page \<Rightarrow> div_element list \<Rightarrow> js_error + server_entry list" where
  \<comment> \<open>the \<open>each\<close> loop in document order: the entries pushed, or the first error thrown\<close>
  "each_option large p [] = Inr []"
| "each_option large p (d # ds) =
     (case option_entry large p d of
        Inl e \<Rightarrow> Inl e
      | Inr pushed \<Rightarrow>
          (case each_option large p ds of
             Inl e \<Rightarrow> Inl e
           | Inr es \<Rightarrow> Inr (case pushed of Some entry \<Rightarrow> entry # es | None \<Rightarrow> es)))"

section \<open>Collaborators and state\<close>

text \<open>
  A record of the external metadata API, and what a request to it may resolve to: a
  falsy body, an array of records, a string (a body that is not JSON), or some other
  value without a \<open>length\<close>. A field is a string or absent. The requests carry \<open>q\<close> (a
  title) or \<open>id\<close> (a data id) as their parameter, or none.
\<close>

record anime_record =
  anime_id :: "string option"
  data_id :: "string option"
  title :: "string option"

datatype api_response = Falsy | Records "anime_record list" | Text string | Other

datatype api_query = Query_q string | Query_id string

text \<open>
  The collaborators of the extractor. The HTTP client answers a page request with the
  HTML or an error and a metadata request with a response or an error; both may depend
  on, and change, the state \<open>'w\<close> of the world. \<open>http_get_api_race ms\<close> is the unfiltered
  metadata request raced against a timer of \<open>ms\<close> milliseconds: \<open>None\<close> when the timer
  settles first. The state threaded through a call is the world and the list of the
  URLs requested so far. Logging is not modelled.
\<close>

record 'w env =
  baseUrl :: string
  loadCheerio :: "string \<Rightarrow> page"
  http_get_page :: "string \<Rightarrow> 'w \<Rightarrow> (js_error + string) \<times> 'w"
  http_get_api :: "api_query \<Rightarrow> 'w \<Rightarrow> (js_error + api_response) \<times> 'w"
  http_get_api_race :: "nat \<Rightarrow> 'w \<Rightarrow> (js_error + api_response) option \<times> 'w"
  large_number :: "nat \<Rightarrow> string"

type_synonym 'w st = "'w \<times> string list"

definition api_url :: string where
  "api_url = ''https://anime-api-two-pi.vercel.app/api''"

definition httpGetApi :: "'w env \<Rightarrow> api_query \<Rightarrow> 'w st \<Rightarrow> (js_error + api_response) \<times> 'w st" where
  "httpGetApi env q s =
     (case http_get_api env q (fst s) of (r, w') \<Rightarrow> (r, (w', snd s @ [api_url])))"

definition httpGetApiRace ::
  "'w env \<Rightarrow> nat \<Rightarrow> 'w st \<Rightarrow> (js_error + api_response) option \<times> 'w st" where
  "httpGetApiRace env ms s =
     (case http_get_api_race env ms (fst s) of (r, w') \<Rightarrow> (r, (w', snd s @ [api_url])))"

text \<open>The method \<open>extract(html, url)\<close>; its name is a keyword here, hence \<open>extract_html\<close>.\<close>

definition extract_html :: "'w env \<Rightarrow> string \<Rightarrow> string \<Rightarrow> js_error + 'm embed_data" where
  "extract_html env html u =
     (let p = loadCheerio env html
      in case each_option (large_number env) p (select_options p) of
           Inl e \<Rightarrow> Inl e
         | Inr pushed \<Rightarrow>
             Inr \<lparr>embed_id = [],
                  servers = sort_key (\<lambda>e. num_key (server e)) pushed,
                  externalApiMapping = None\<rparr>)"

text \<open>
  Every \<open>try\<close> block of the retrieval methods starts with the same two steps, the request
  for a page and \<open>extract\<close> on what comes back, and its \<open>catch\<close> receives the error of
  either. \<open>attempt\<close> is these two steps; \<open>fetchAndExtract\<close> also records the request.
\<close>

definition attempt :: "'w env \<Rightarrow> string \<Rightarrow> 'w \<Rightarrow> (js_error + 'm embed_data) \<times> 'w" where
  "attempt env u w =
     (case http_get_page env u w of
        (Inr html, w') \<Rightarrow> (extract_html env html u, w')
      | (Inl error, w') \<Rightarrow> (Inl error, w'))"

definition fetchAndExtract :: "'w env \<Rightarrow> string \<Rightarrow> 'w st \<Rightarrow> (js_error + 'm embed_data) \<times> 'w st" where
  "fetchAndExtract env u s =
     (case attempt env u (fst s) of (r, w') \<Rightarrow> (r, (w', snd s @ [u])))"

section \<open>Fallback retrieval: \<open>extractFromUrl\<close>\<close>

definition is404 :: "js_error \<Rightarrow> bool" where
  "is404 error =
     (response_status error = Some 404 \<or> status error = Some 404 \<or>
      (case message error of Some m \<Rightarrow> str_includes m ''404'' | None \<Rightarrow> False) \<or>
      code error = Some ''ENOTFOUND'')"

fun try_detail_urls ::
  "'w env \<Rightarrow> string \<Rightarrow> string list \<Rightarrow> js_error option \<Rightarrow> 'w st \<Rightarrow>
   (js_error option + 'm embed_data) \<times> 'w st" where
  \<comment> \<open>the loop over \<open>detailUrls\<close>; \<open>Inl\<close> is \<open>lastDetailError\<close> when the loop runs out\<close>
  "try_detail_urls env i [] lastDetailError s = (Inl lastDetailError, s)"
| "try_detail_urls env i (detailUrl # rest) lastDetailError s =
     (case fetchAndExtract env detailUrl s of
        (Inr data, s') \<Rightarrow> (Inr (data\<lparr>embed_id := i\<rparr>), s')
      | (Inl detailError, s') \<Rightarrow> try_detail_urls env i rest (Some detailError) s')"

definition extractFromUrl ::
  "'w env \<Rightarrow> string \<Rightarrow> 'w st \<Rightarrow> (js_error + 'm embed_data) \<times> 'w st" where
  "extractFromUrl env i s =
     (let episodeUrl = baseUrl env @ ''/episode/'' @ i @ ''/''
      in case fetchAndExtract env episodeUrl s of
           (Inr data, s1) \<Rightarrow> (Inr (data\<lparr>embed_id := i\<rparr>), s1)
         | (Inl error, s1) \<Rightarrow>
             if is404 error then
               let seriesId = getSeriesIdFromEpisodeId i;
                   detailUrls = [baseUrl env @ ''/series/'' @ seriesId @ ''/'',
                                 baseUrl env @ ''/movies/'' @ seriesId @ ''/'']
               in (case try_detail_urls env i detailUrls None s1 of
                     (Inr data, s2) \<Rightarrow> (Inr data, s2)
                   | (Inl (Some lastDetailError), s2) \<Rightarrow> (Inl lastDetailError, s2)
                   | (Inl None, s2) \<Rightarrow> (Inl error, s2))
             else (Inl error, s1))"

section \<open>External metadata and the mapping merger\<close>

text \<open>
  What \<open>searchAnimeInExternalApi\<close> returns when it does not return \<open>null\<close>: \<open>response[0]\<close>,
  which is a record of an array and a one-character string of a string.
\<close>

datatype js_item = Item anime_record | Str string

definition searchAnimeInExternalApi ::
  "'w env \<Rightarrow> string \<Rightarrow> 'w st \<Rightarrow> (js_error + js_item option) \<times> 'w st" where
  \<comment> \<open>\<open>response && response.length > 0\<close> holds of a non-empty array and of a non-empty
      string; the \<open>catch\<close> turns a rejected request into \<open>null\<close>\<close>
  "searchAnimeInExternalApi env t s =
     (case httpGetApi env (Query_q t) s of
        (Inr (Records (r # rs)), s') \<Rightarrow> (Inr (Some (Item r)), s')
      | (Inr (Text (c # cs)), s') \<Rightarrow> (Inr (Some (Str [c])), s')
      | (Inr _, s') \<Rightarrow> (Inr None, s')
      | (Inl error, s') \<Rightarrow> (Inr None, s'))"

record mapped_data =
  externalApiId :: string
  mapped_dataId :: "string option"
  mapped_episodeId :: string
  mapped_season :: jsnum
  mapped_episode :: jsnum
  originalTitle :: string

definition getAnimeIdFromExternalApi ::
  "'w env \<Rightarrow> string \<Rightarrow> 'w st \<Rightarrow> (js_error + mapped_data option) \<times> 'w st" where
  \<comment> \<open>\<open>animeData.id\<close> of a string is \<open>undefined\<close>\<close>
  "getAnimeIdFromExternalApi env episodeId s =
     (case parseEpisodeId episodeId of
        None \<Rightarrow> (Inr None, s)
      | Some parsed \<Rightarrow>
          (case searchAnimeInExternalApi env (animeTitle parsed) s of
             (Inr (Some (Item animeData)), s') \<Rightarrow>
               if truthy (anime_id animeData)
               then (Inr (Some \<lparr>externalApiId = or_else (anime_id animeData) [],
                                 mapped_dataId = (if truthy (data_id animeData) then data_id animeData else None),
                                 mapped_episodeId = episodeId,
                                 mapped_season = season parsed,
                                 mapped_episode = episode parsed,
                                 originalTitle = or_else (title animeData) (animeTitle parsed)\<rparr>), s')
               else (Inr None, s')
           | (Inr (Some (Str _)), s') \<Rightarrow> (Inr None, s')
           | (Inr None, s') \<Rightarrow> (Inr None, s')
           | (Inl error, s') \<Rightarrow> (Inr None, s')))"

record api_mapping =
  animeId :: string
  map_dataId :: "string option"
  map_title :: string
  map_season :: jsnum
  map_episode :: jsnum

definition getEmbedWithMapping ::
  "'w env \<Rightarrow> string \<Rightarrow> 'w st \<Rightarrow> (js_error + api_mapping embed_data) \<times> 'w st" where
  "getEmbedWithMapping env episodeId s =
     (case getAnimeIdFromExternalApi env episodeId s of
        (Inl error, s1) \<Rightarrow> (Inl error, s1)
      | (Inr None, s1) \<Rightarrow> extractFromUrl env episodeId s1
      | (Inr (Some mappedData), s1) \<Rightarrow>
          (case extractFromUrl env episodeId s1 of
             (Inl error, s2) \<Rightarrow> (Inl error, s2)
           | (Inr (embedData :: unit embed_data), s2) \<Rightarrow>
               (Inr \<lparr>embed_id = episodeId,
                     servers = servers embedData,
                     externalApiMapping =
                       Some \<lparr>animeId = externalApiId mappedData,
                             map_dataId = mapped_dataId mappedData,
                             map_title = originalTitle mappedData,
                             map_season = mapped_season mappedData,
                             map_episode = mapped_episode mappedData\<rparr>\<rparr>, s2)))"

section \<open>The numeric-id flows\<close>

function replace_spaces :: "string \<Rightarrow> string" where
  \<comment> \<open>\<open>.replace(/\s+/g, '-')\<close>\<close>
  "replace_spaces [] = []"
| "replace_spaces (c # cs) =
     (if is_space c then CHR ''-'' # replace_spaces (dropWhile is_space cs)
      else c # replace_spaces cs)"
  by pat_completeness auto
termination
  by (relation "measure length") (auto simp: length_dropWhile_le less_Suc_eq_le)

definition strip_non_word :: "string \<Rightarrow> string" where
  \<comment> \<open>\<open>.replace(/[^\w-]/g, '')\<close>\<close>
  "strip_non_word s = filter (\<lambda>c. is_word_char c \<or> c = CHR ''-'') s"

definition seriesId_of_title :: "string \<Rightarrow> string" where
  \<comment> \<open>\<open>getEmbedByDataId\<close>: \<open>title.toLowerCase().replace(/\s+/g, '-')\<close>\<close>
  "seriesId_of_title t = replace_spaces (toLowerCase t)"

definition seriesPattern_of_title :: "string \<Rightarrow> string" where
  \<comment> \<open>\<open>getEmbedByDataIdAndEpisode\<close>:
      \<open>animeTitle.toLowerCase().replace(/\s+/g, '-').replace(/[^\w-]/g, '')\<close>\<close>
  "seriesPattern_of_title t = strip_non_word (replace_spaces (toLowerCase t))"

definition constructCommonSeriesIds :: "string \<Rightarrow> string list" where
  "constructCommonSeriesIds dataId =
     [''one-punch-man'', ''one-piece'', ''naruto'', ''bleach'', ''demon-slayer'',
      ''jujutsu-kaisen'', ''attack-on-titan'', ''my-hero-academia'', ''dragon-ball-super'',
      ''spy-x-family'', ''fire-force'', ''chainsaw-man'', ''hunter-x-hunter'', ''solo-leveling'']"

definition js_String :: "string option \<Rightarrow> string" where
  \<comment> \<open>\<open>String(v)\<close> for a string or absent \<open>v\<close>\<close>
  "js_String v = (case v of Some x \<Rightarrow> x | None \<Rightarrow> ''undefined'')"

definition fetchAnimeTitle :: "'w env \<Rightarrow> string \<Rightarrow> 'w st \<Rightarrow> string option \<times> 'w st" where
  \<comment> \<open>the inner \<open>try\<close> of \<open>getEmbedByDataIdAndEpisode\<close> that sets \<open>animeTitle\<close>: the
      request raced against the 5000 ms timer; a rejection of either is caught; only an
      array passes \<open>Array.isArray\<close>\<close>
  "fetchAnimeTitle env dataId s =
     (case httpGetApiRace env 5000 s of
        (None, s') \<Rightarrow> (None, s')
      | (Some (Inl apiError), s') \<Rightarrow> (None, s')
      | (Some (Inr (Records response)), s') \<Rightarrow>
          (case find (\<lambda>item. js_String (data_id item) = dataId) response of
             Some anime \<Rightarrow> (if truthy (title anime) then (title anime, s') else (None, s'))
           | None \<Rightarrow> (None, s'))
      | (Some (Inr _), s') \<Rightarrow> (None, s'))"

record episode_mapping =
  ep_dataId :: string
  ep_season :: jsnum
  ep_episode :: jsnum
  ep_title :: string
  constructedId :: string

fun try_urls ::
  "'w env \<Rightarrow> (unit embed_data \<Rightarrow> 'd) \<Rightarrow> string list \<Rightarrow> 'w st \<Rightarrow> 'd option \<times> 'w st" where
  \<comment> \<open>the inner loop over \<open>detailUrls\<close>: the data of the first URL that is fetched and
      parsed; \<open>mk\<close> sets \<open>id\<close> and \<open>externalApiMapping\<close>\<close>
  "try_urls env mk [] s = (None, s)"
| "try_urls env mk (detailUrl # rest) s =
     (case fetchAndExtract env detailUrl s of
        (Inr data, s') \<Rightarrow> (Some (mk data), s')
      | (Inl detailError, s') \<Rightarrow> try_urls env mk rest s')"

fun try_series ::
  "'w env \<Rightarrow> (unit embed_data \<Rightarrow> 'd) \<Rightarrow> string list \<Rightarrow> 'w st \<Rightarrow> 'd option \<times> 'w st" where
  \<comment> \<open>the outer loop over \<open>seriesPatterns\<close>\<close>
  "try_series env mk [] s = (None, s)"
| "try_series env mk (seriesId # rest) s =
     (case try_urls env mk [baseUrl env @ ''/series/'' @ seriesId @ ''/'',
                            baseUrl env @ ''/movies/'' @ seriesId @ ''/''] s of
        (Some data, s') \<Rightarrow> (Some data, s')
      | (None, s') \<Rightarrow> try_series env mk rest s')"

definition seriesPatterns :: "string option \<Rightarrow> string \<Rightarrow> string list" where
  \<comment> \<open>\<open>animeTitle ? [...] : constructCommonSeriesIds(dataId)\<close>\<close>
  "seriesPatterns resolvedTitle dataId =
     (case resolvedTitle of
        Some t \<Rightarrow> if t \<noteq> [] then [seriesPattern_of_title t] else constructCommonSeriesIds dataId
      | None \<Rightarrow> constructCommonSeriesIds dataId)"

definition first_pattern :: "string list \<Rightarrow> string" where
  \<comment> \<open>\<open>seriesPatterns[0]\<close> inside a template\<close>
  "first_pattern ps = (case ps of [] \<Rightarrow> ''undefined'' | p # _ \<Rightarrow> p)"

text \<open>
  \<open>getEmbedByDataIdAndEpisode\<close> in two parts: \<open>fetchAnimeTitle\<close> above sets the variable
  \<open>animeTitle\<close>, here \<open>resolvedTitle\<close>; \<open>fetchByPatterns\<close> is the rest of the method, from
  \<open>seriesPatterns\<close> on. \<open>se\<close> and \<open>ep\<close> are the parameters \<open>season\<close> and \<open>episode\<close>.
\<close>

definition constructedEpisodeId :: "'w env \<Rightarrow> string option \<Rightarrow> string \<Rightarrow> jsnum \<Rightarrow> jsnum \<Rightarrow> string" where
  "constructedEpisodeId env resolvedTitle dataId se ep =
     buildComposite (large_number env) (first_pattern (seriesPatterns resolvedTitle dataId)) se ep"

definition episode_data ::
  "'w env \<Rightarrow> string option \<Rightarrow> string \<Rightarrow> jsnum \<Rightarrow> jsnum \<Rightarrow> unit embed_data \<Rightarrow>
   episode_mapping embed_data" where
  \<comment> \<open>what both \<open>try\<close> blocks do to the \<open>data\<close> of \<open>extract\<close>: they set \<open>id\<close> and
      \<open>externalApiMapping\<close>\<close>
  "episode_data env resolvedTitle dataId se ep data =
     \<lparr>embed_id = dataId @ ''/'' @ number_to_string (large_number env) se @ ''/''
                    @ number_to_string (large_number env) ep,
      servers = servers data,
      externalApiMapping =
        Some \<lparr>ep_dataId = dataId, ep_season = se, ep_episode = ep,
              ep_title = or_else resolvedTitle ''Unknown'',
              constructedId = constructedEpisodeId env resolvedTitle dataId se ep\<rparr>\<rparr>"

definition fetchByPatterns ::
  "'w env \<Rightarrow> string option \<Rightarrow> string \<Rightarrow> jsnum \<Rightarrow> jsnum \<Rightarrow> 'w st \<Rightarrow>
   (js_error + episode_mapping embed_data) \<times> 'w st" where
  "fetchByPatterns env resolvedTitle dataId se ep s1 =
     (let episodeUrl = baseUrl env @ ''/episode/''
                         @ constructedEpisodeId env resolvedTitle dataId se ep @ ''/''
      in case fetchAndExtract env episodeUrl s1 of
           (Inr data, s2) \<Rightarrow> (Inr (episode_data env resolvedTitle dataId se ep data), s2)
         | (Inl episodeError, s2) \<Rightarrow>
             (case try_series env (episode_data env resolvedTitle dataId se ep)
                     (seriesPatterns resolvedTitle dataId) s2 of
                (Some data, s3) \<Rightarrow> (Inr data, s3)
              | (None, s3) \<Rightarrow>
                  (Inl (Error (''Could not find any page for data_id: '' @ dataId)), s3)))"

definition getEmbedByDataIdAndEpisode ::
  "'w env \<Rightarrow> string \<Rightarrow> jsnum \<Rightarrow> jsnum \<Rightarrow> 'w st \<Rightarrow>
   (js_error + episode_mapping embed_data) \<times> 'w st" where
  "getEmbedByDataIdAndEpisode env dataId se ep s =
     (case fetchAnimeTitle env dataId s of
        (resolvedTitle, s1) \<Rightarrow> fetchByPatterns env resolvedTitle dataId se ep s1)"

section \<open>Notions used in the statements\<close>

definition is_lower_letter :: "char \<Rightarrow> bool" where
  \<comment> \<open>\<open>[a-z]\<close>\<close>
  "is_lower_letter c = (let n = (of_char c :: nat) in 97 \<le> n \<and> n \<le> 122)"

definition detail_urls :: "'w env \<Rightarrow> string list \<Rightarrow> string list" where
  \<comment> \<open>the series page and the movie page of each candidate, in order\<close>
  "detail_urls env ps =
     concat (map (\<lambda>p. [baseUrl env @ ''/series/'' @ p @ ''/'', baseUrl env @ ''/movies/'' @ p @ ''/'']) ps)"

definition attempt_urls :: "'w env \<Rightarrow> string option \<Rightarrow> string \<Rightarrow> jsnum \<Rightarrow> jsnum \<Rightarrow> string list" where
  \<comment> \<open>the episode page of the first candidate, then the detail pages of all candidates\<close>
  "attempt_urls env resolvedTitle dataId se ep =
     (baseUrl env @ ''/episode/'' @ constructedEpisodeId env resolvedTitle dataId se ep @ ''/'')
       # detail_urls env (seriesPatterns resolvedTitle dataId)"

section \<open>Example collaborators\<close>

text \<open>
  Concrete pages, errors and collaborators at which the theorems below are instantiated.
  \<open>example_page\<close> has two blocks with a frame and three that are passed over;
  \<open>frameless_page\<close> has one block \<open>options-5\<close> without a frame; \<open>quoted_page\<close> has one block
  without a frame whose id is \<open>options-1\<close> followed by a double quote, for which the
  query for the tab link throws.
\<close>

definition example_page :: page where
  "example_page =
     \<lparr>divs = [\<lparr>div_id = Some ''options-2'', iframe_src = Some ''https://play.example/e/2'',
                iframe_data_src = None\<rparr>,
              \<lparr>div_id = Some ''options-x'', iframe_src = Some ''https://play.example/e/x'',
                iframe_data_src = None\<rparr>,
              \<lparr>div_id = Some ''options-0'', iframe_src = Some [],
                iframe_data_src = Some ''https://play.example/e/0''\<rparr>,
              \<lparr>div_id = Some ''options-5'', iframe_src = None, iframe_data_src = None\<rparr>,
              \<lparr>div_id = Some ''content'', iframe_src = Some ''https://play.example/ad'',
                iframe_data_src = None\<rparr>],
      server_label = (\<lambda>i. Inr (if i = ''options-2'' then '' Play '' else []))\<rparr>"

definition empty_page :: page where
  "empty_page = \<lparr>divs = [], server_label = (\<lambda>i. Inr [])\<rparr>"

definition frameless_page :: page where
  "frameless_page =
     \<lparr>divs = [\<lparr>div_id = Some ''options-5'', iframe_src = None, iframe_data_src = None\<rparr>],
      server_label = (\<lambda>i. Inr [])\<rparr>"

definition selector_error :: js_error where
  "selector_error = Error (''Attribute selector didn'' @ [CHR 0x27] @ ''t terminate'')"

definition quoted_page :: page where
  "quoted_page =
     \<lparr>divs = [\<lparr>div_id = Some (''options-1'' @ [CHR 0x22]), iframe_src = None,
                iframe_data_src = None\<rparr>],
      server_label = (\<lambda>i. if CHR 0x22 \<in> set i then Inl selector_error else Inr [])\<rparr>"

definition example_env ::
  "(string \<Rightarrow> js_error + string) \<Rightarrow> (api_query \<Rightarrow> js_error + api_response) \<Rightarrow>
   (js_error + api_response) option \<Rightarrow> unit env" where
  "example_env pages api race =
     \<lparr>baseUrl = ''https://watchanimeworld.in'',
      loadCheerio = (\<lambda>html. if html = ''<options>'' then example_page
                             else if html = ''<frameless>'' then frameless_page
                             else if html = ''<quoted>'' then quoted_page
                             else empty_page),
      http_get_page = (\<lambda>u w. (pages u, w)),
      http_get_api = (\<lambda>q w. (api q, w)),
      http_get_api_race = (\<lambda>ms w. (race, w)),
      large_number = dec_string\<rparr>"

definition no_api :: "api_query \<Rightarrow> js_error + api_response" where
  "no_api q = Inl (Error ''getaddrinfo EAI_AGAIN'')"

definition not_found :: js_error where
  "not_found = \<lparr>response_status = Some 404, status = None,
                  message = Some ''Request failed with status code 404'', code = None\<rparr>"

definition timeout_error :: js_error where
  "timeout_error = \<lparr>response_status = None, status = None,
                      message = Some ''timeout of 10000ms exceeded'', code = Some ''ECONNABORTED''\<rparr>"

definition long_timeout_error :: js_error where
  "long_timeout_error = \<lparr>response_status = None, status = None,
                           message = Some ''timeout of 40400ms exceeded'',
                           code = Some ''ECONNABORTED''\<rparr>"

definition dns_error :: js_error where
  "dns_error = \<lparr>response_status = None, status = None,
                  message = Some ''getaddrinfo ENOTFOUND watchanimeworld.in'',
                  code = Some ''ENOTFOUND''\<rparr>"

definition only_page :: "string \<Rightarrow> string \<Rightarrow> string \<Rightarrow> js_error + string" where
  "only_page page_url html u = (if u = page_url then Inr html else Inl not_found)"

definition two_pages :: "string \<Rightarrow> string \<Rightarrow> string \<Rightarrow> string \<Rightarrow> string \<Rightarrow> js_error + string" where
  "two_pages url1 html1 url2 html2 u =
     (if u = url1 then Inr html1 else if u = url2 then Inr html2 else Inl not_found)"

definition failing_pages :: "js_error \<Rightarrow> string \<Rightarrow> js_error + string" where
  "failing_pages e u = Inl e"

definition spy_api :: "api_query \<Rightarrow> js_error + api_response" where
  "spy_api q = Inr (Records [\<lparr>anime_id = Some ''spy-x-family-12345'', data_id = Some ''12345'',
                               title = Some ''Spy x Family''\<rparr>])"

definition text_api :: "api_query \<Rightarrow> js_error + api_response" where
  "text_api q = Inr (Text ''Too Many Requests'')"

section \<open>Properties of the codec\<close>

lemma nat_of_digits_snoc: "nat_of_digits (ds @ [c]) = 10 * nat_of_digits ds + digit_val c"
  by (simp add: nat_of_digits_def)

lemma digit_val_lt: "is_digit c \<Longrightarrow> digit_val c < 10"
  by (auto simp: is_digit_def digit_val_def Let_def)

lemma char_of_digit_val: "is_digit c \<Longrightarrow> char_of (48 + digit_val c) = c"
  by (auto simp: is_digit_def digit_val_def Let_def)

lemma digit_val_zero:
  assumes "is_digit c" "digit_val c = 0"
  shows "c = CHR ''0''"
proof -
  from assms have "c = char_of (48::nat)" using char_of_digit_val [of c] by simp
  also have "\<dots> = CHR ''0''" by (simp add: char_of_eq_iff)
  finally show ?thesis .
qed

lemma dec_string_step:
  "d < 10 \<Longrightarrow> 0 < m \<Longrightarrow> dec_string (10 * m + d) = dec_string m @ [char_of (48 + d)]"
  by (subst dec_string.simps) simp

lemma dec_string_digit: "d < 10 \<Longrightarrow> dec_string d = [char_of (48 + d)]"
  by (subst dec_string.simps) simp

lemma nat_of_digits_pos:
  "ds \<noteq> [] \<Longrightarrow> list_all is_digit ds \<Longrightarrow> hd ds \<noteq> CHR ''0'' \<Longrightarrow> 0 < nat_of_digits ds"
proof (induction ds rule: rev_induct)
  case Nil
  then show ?case by simp
next
  case (snoc c ds)
  show ?case
  proof (cases "ds = []")
    case True
    with snoc.prems digit_val_zero [of c] show ?thesis
      by (auto simp: nat_of_digits_def)
  next
    case False
    with snoc have "0 < nat_of_digits ds" by simp
    then show ?thesis by (simp add: nat_of_digits_snoc)
  qed
qed

lemma dec_string_nat_of_digits:
  "is_numeral ds \<Longrightarrow> dec_string (nat_of_digits ds) = ds"
  unfolding is_numeral_def
proof (induction ds rule: rev_induct)
  case Nil
  then show ?case by simp
next
  case (snoc c ds)
  then have c: "is_digit c" by simp
  show ?case
  proof (cases "ds = []")
    case True
    with c show ?thesis
      by (simp add: nat_of_digits_def dec_string_digit digit_val_lt char_of_digit_val)
  next
    case False
    with snoc.prems have pos: "0 < nat_of_digits ds"
      by (intro nat_of_digits_pos) auto
    from False snoc have "dec_string (nat_of_digits ds) = ds" by simp
    with pos c show ?thesis
      by (simp add: nat_of_digits_snoc dec_string_step digit_val_lt char_of_digit_val)
  qed
qed

lemma round_double_exact: "n \<le> 2 ^ 53 \<Longrightarrow> round_double n = Num n"
proof (cases "n < 2 ^ 53")
  case True
  then show ?thesis by (simp add: round_double_def)
next
  case False
  assume "n \<le> 2 ^ 53"
  with False have n: "n = 2 ^ 53" by simp
  have "round_double (2 ^ 53) = Num (2 ^ 53)"
    by (simp add: round_double_def bit_length.simps)
  with n show ?thesis by simp
qed

lemma takeWhile_digits_x:
  "list_all is_digit d1 \<Longrightarrow> takeWhile is_digit (d1 @ CHR ''x'' # d2) = d1"
  by (induction d1) (auto simp: is_digit_def)

lemma dropWhile_digits_x:
  "list_all is_digit d1 \<Longrightarrow> dropWhile is_digit (d1 @ CHR ''x'' # d2) = CHR ''x'' # d2"
  by (induction d1) (auto simp: is_digit_def)

lemma match_suffix_exact:
  "d1 \<noteq> [] \<Longrightarrow> list_all is_digit d1 \<Longrightarrow> d2 \<noteq> [] \<Longrightarrow> list_all is_digit d2 \<Longrightarrow>
   match_suffix (CHR ''-'' # d1 @ CHR ''x'' # d2) = Some (d1, d2)"
  by (simp add: match_suffix_def takeWhile_digits_x dropWhile_digits_x)

lemma match_suffix_SomeD:
  "match_suffix s = Some (d1, d2) \<Longrightarrow>
   s = CHR ''-'' # d1 @ CHR ''x'' # d2 \<and> d1 \<noteq> [] \<and> list_all is_digit d1 \<and> d2 \<noteq> [] \<and> list_all is_digit d2"
  by (auto simp: match_suffix_def Let_def list_all_iff split: list.splits if_splits dest: set_takeWhileD)
     (metis takeWhile_dropWhile_id)+

lemma match_suffix_no_dash:
  assumes "list_all is_digit d1" "list_all is_digit d2"
  shows "match_suffix (c # t @ CHR ''-'' # d1 @ CHR ''x'' # d2) = None"
proof (cases "match_suffix (c # t @ CHR ''-'' # d1 @ CHR ''x'' # d2)")
  case None
  then show ?thesis .
next
  case (Some p)
  obtain a b where p: "p = (a, b)" by (cases p)
  from match_suffix_SomeD [OF Some [unfolded p]]
  have eq: "c # t @ CHR ''-'' # d1 @ CHR ''x'' # d2 = CHR ''-'' # a @ CHR ''x'' # b"
    and a: "list_all is_digit a" and b: "list_all is_digit b" by auto
  from eq have "CHR ''-'' \<in> set (a @ CHR ''x'' # b)"
    by (metis in_set_conv_decomp list.inject)
  with a b have "is_digit CHR ''-''" by (auto simp: list_all_iff)
  then show ?thesis by (simp add: is_digit_def)
qed

lemma match_lazy_composite:
  assumes "slug \<noteq> []" "\<not> list_ex is_line_terminator slug"
    and "d1 \<noteq> []" "list_all is_digit d1" "d2 \<noteq> []" "list_all is_digit d2"
  shows "match_lazy pre (slug @ CHR ''-'' # d1 @ CHR ''x'' # d2) = Some (pre @ slug, d1, d2)"
  using assms(1,2)
proof (induction slug arbitrary: pre)
  case Nil
  then show ?case by simp
next
  case (Cons c slug)
  show ?case
  proof (cases slug)
    case Nil
    with Cons.prems assms(3-) show ?thesis
      by (simp add: match_suffix_exact)
  next
    case (Cons c' rest)
    with Cons.prems Cons.IH [of "pre @ [c]"] assms(4,6) show ?thesis
      by (simp add: match_suffix_no_dash)
  qed
qed

lemma match_lazy_SomeD:
  "match_lazy pre s = Some (p, d1, d2) \<Longrightarrow>
   \<exists>t. t \<noteq> [] \<and> p = pre @ t \<and> s = t @ CHR ''-'' # d1 @ CHR ''x'' # d2 \<and>
       d1 \<noteq> [] \<and> list_all is_digit d1 \<and> d2 \<noteq> [] \<and> list_all is_digit d2"
proof (induction s arbitrary: pre)
  case Nil
  then show ?case by simp
next
  case (Cons c cs)
  show ?case
  proof (cases "match_suffix cs")
    case None
    with Cons.prems have "match_lazy (pre @ [c]) cs = Some (p, d1, d2)"
      by (simp split: if_splits)
    from Cons.IH [OF this] obtain t where "t \<noteq> []" "p = (pre @ [c]) @ t"
      "cs = t @ CHR ''-'' # d1 @ CHR ''x'' # d2" "d1 \<noteq> []" "list_all is_digit d1"
      "d2 \<noteq> []" "list_all is_digit d2" by blast
    then show ?thesis by (intro exI [of _ "c # t"]) simp
  next
    case (Some q)
    obtain a b where q: "q = (a, b)" by (cases q)
    with Some Cons.prems have "p = pre @ [c]" "a = d1" "b = d2"
      by (auto split: if_splits)
    with match_suffix_SomeD [OF Some [unfolded q]] show ?thesis
      by (intro exI [of _ "[c]"]) simp
  qed
qed

text \<open>
  C5 (as amended). For every composite identifier \<open><slug>-<season>x<episode>\<close> whose
  slug is not empty and has no line terminator, and whose season and episode are
  positive decimal numerals without leading zeros of a value up to \<open>2^53\<close>,
  \<open>parseEpisodeId\<close> succeeds, and formatting its fields again as
  \<open><animeTitle>-<season>x<episode>\<close> gives the original string. On a string that does not
  end in \<open>-<digits>x<digits>\<close>, \<open>parseEpisodeId\<close> returns \<open>null\<close>.
\<close>

theorem parseEpisodeId_round_trip:
  "(slug \<noteq> [] \<and> \<not> list_ex is_line_terminator slug \<and> is_numeral s \<and> is_numeral e \<and>
    nat_of_digits s \<le> 2 ^ 53 \<and> nat_of_digits e \<le> 2 ^ 53 \<longrightarrow>
    (\<exists>p. parseEpisodeId (slug @ ''-'' @ s @ ''x'' @ e) = Some p \<and>
         animeTitle p = slug \<and> season p = Num (nat_of_digits s) \<and> episode p = Num (nat_of_digits e) \<and>
         buildComposite large (animeTitle p) (season p) (episode p) = slug @ ''-'' @ s @ ''x'' @ e))
   \<and> ((\<forall>t d1 d2. d1 \<noteq> [] \<and> list_all is_digit d1 \<and> d2 \<noteq> [] \<and> list_all is_digit d2 \<longrightarrow>
          x \<noteq> t @ ''-'' @ d1 @ ''x'' @ d2) \<longrightarrow> parseEpisodeId x = None)"
proof (intro conjI impI)
  assume h: "slug \<noteq> [] \<and> \<not> list_ex is_line_terminator slug \<and> is_numeral s \<and> is_numeral e \<and>
    nat_of_digits s \<le> 2 ^ 53 \<and> nat_of_digits e \<le> 2 ^ 53"
  then have m: "match_lazy [] (slug @ CHR ''-'' # s @ CHR ''x'' # e) = Some (slug, s, e)"
    using match_lazy_composite [of slug s e "[]"] by (simp add: is_numeral_def)
  from h have "number_to_string large (parseInt10 s) = s" "number_to_string large (parseInt10 e) = e"
    by (simp_all add: parseInt10_def round_double_exact number_to_string_def dec_string_nat_of_digits)
  with h m show "\<exists>p. parseEpisodeId (slug @ ''-'' @ s @ ''x'' @ e) = Some p \<and>
         animeTitle p = slug \<and> season p = Num (nat_of_digits s) \<and> episode p = Num (nat_of_digits e) \<and>
         buildComposite large (animeTitle p) (season p) (episode p) = slug @ ''-'' @ s @ ''x'' @ e"
    by (simp add: parseEpisodeId_def buildComposite_def parseInt10_def round_double_exact)
next
  assume h: "\<forall>t d1 d2. d1 \<noteq> [] \<and> list_all is_digit d1 \<and> d2 \<noteq> [] \<and> list_all is_digit d2 \<longrightarrow>
          x \<noteq> t @ ''-'' @ d1 @ ''x'' @ d2"
  show "parseEpisodeId x = None"
  proof (cases "match_lazy [] x")
    case None
    then show ?thesis by (simp add: parseEpisodeId_def)
  next
    case (Some r)
    obtain p d1 d2 where "r = (p, d1, d2)" by (cases r)
    with Some match_lazy_SomeD [of "[]" x p d1 d2] h show ?thesis by auto
  qed
qed

theorem parseEpisodeId_round_trip_witness:
  "''spy-x-family'' \<noteq> [] \<and> \<not> list_ex is_line_terminator ''spy-x-family'' \<and>
   is_numeral ''3'' \<and> is_numeral ''1'' \<and>
   nat_of_digits ''3'' \<le> 2 ^ 53 \<and> nat_of_digits ''1'' \<le> 2 ^ 53 \<and>
   parseEpisodeId ''spy-x-family-3x1'' =
     Some \<lparr>animeTitle = ''spy-x-family'', season = Num 3, episode = Num 1\<rparr> \<and>
   buildComposite dec_string ''spy-x-family'' (Num 3) (Num 1) = ''spy-x-family-3x1'' \<and>
   parseEpisodeId ''one-piece'' = None"
proof -
  have h1: "''spy-x-family'' \<noteq> [] \<and> \<not> list_ex is_line_terminator ''spy-x-family'' \<and>
      is_numeral ''3'' \<and> is_numeral ''1'' \<and>
      nat_of_digits ''3'' \<le> 2 ^ 53 \<and> nat_of_digits ''1'' \<le> 2 ^ 53"
    by (simp add: is_line_terminator_def is_numeral_def is_digit_def nat_of_digits_def digit_val_def)
  have h2: "\<forall>t d1 d2. d1 \<noteq> [] \<and> list_all is_digit d1 \<and> d2 \<noteq> [] \<and> list_all is_digit d2 \<longrightarrow>
      ''one-piece'' \<noteq> t @ ''-'' @ d1 @ ''x'' @ d2"
  proof (intro allI impI notI)
    fix t d1 d2 :: string
    assume "''one-piece'' = t @ ''-'' @ d1 @ ''x'' @ d2"
    then have "set ''one-piece'' = set (t @ ''-'' @ d1 @ ''x'' @ d2)" by simp
    then have "CHR ''x'' \<in> set ''one-piece''" by simp
    then show False by simp
  qed
  from parseEpisodeId_round_trip [of "''spy-x-family''" "''3''" "''1''" dec_string "''one-piece''"] h1 h2
  obtain p where p: "parseEpisodeId (''spy-x-family'' @ ''-'' @ ''3'' @ ''x'' @ ''1'') = Some p"
      "animeTitle p = ''spy-x-family''" "season p = Num (nat_of_digits ''3'')"
      "episode p = Num (nat_of_digits ''1'')"
      "buildComposite dec_string (animeTitle p) (season p) (episode p) =
         ''spy-x-family'' @ ''-'' @ ''3'' @ ''x'' @ ''1''"
    and n: "parseEpisodeId ''one-piece'' = None"
    by blast
  from p have "p = \<lparr>animeTitle = ''spy-x-family'', season = Num 3, episode = Num 1\<rparr>"
    by (cases p) (simp add: nat_of_digits_def digit_val_def)
  with p n h1 show ?thesis by simp
qed

theorem parseEpisodeId_round_trip_counterexample:
  "is_numeral ''9007199254740993'' \<and> is_numeral ''1'' \<and>
   parseEpisodeId ''a-9007199254740993x1'' =
     Some \<lparr>animeTitle = ''a'', season = Num 9007199254740992, episode = Num 1\<rparr> \<and>
   buildComposite dec_string ''a'' (Num 9007199254740992) (Num 1) = ''a-9007199254740992x1'' \<and>
   ''a-9007199254740992x1'' \<noteq> ''a-9007199254740993x1''"
  by (simp add: parseEpisodeId_def match_suffix_def is_line_terminator_def is_digit_def is_numeral_def
      parseInt10_def nat_of_digits_def digit_val_def round_double_def bit_length.simps
      buildComposite_def number_to_string_def dec_string.simps char_of_eq_iff)

section \<open>Properties of the numeric-id flow\<close>

lemma set_replace_spaces: "set (replace_spaces s) \<subseteq> insert CHR ''-'' (set s)"
proof (induction s rule: replace_spaces.induct)
  case 1
  then show ?case by simp
next
  case (2 c cs)
  show ?case
  proof (cases "is_space c")
    case True
    with 2 have "set (replace_spaces (dropWhile is_space cs)) \<subseteq> insert CHR ''-'' (set (dropWhile is_space cs))"
      by simp
    moreover have "set (dropWhile is_space cs) \<subseteq> set cs"
      by (auto dest: set_dropWhileD)
    ultimately show ?thesis using True by auto
  next
    case False
    with 2 show ?thesis by auto
  qed
qed

lemma replace_spaces_no_space: "\<not> list_ex is_space s \<Longrightarrow> replace_spaces s = s"
  by (induction s) auto

lemma replace_spaces_not_space: "\<not> list_ex is_space (replace_spaces s)"
proof (induction s rule: replace_spaces.induct)
  case 1
  then show ?case by simp
next
  case (2 c cs)
  then show ?case by (auto simp: is_space_def)
qed

lemma replace_spaces_run:
  assumes "ws \<noteq> []" "list_all is_space ws" "b = [] \<or> \<not> is_space (hd b)"
  shows "replace_spaces (ws @ b) = CHR ''-'' # replace_spaces b"
proof -
  from assms(1) obtain c cs where ws: "ws = c # cs" by (cases ws) auto
  with assms(2) have c: "is_space c" and cs: "list_all is_space cs" by auto
  from cs assms(3) have "dropWhile is_space (cs @ b) = b"
    by (induction cs) (auto simp: neq_Nil_conv intro: dropWhile_eq_self_iff [THEN iffD2] )
  with ws c show ?thesis by simp
qed

lemma replace_spaces_append:
  assumes "a = [] \<or> \<not> is_space (last a)"
  shows "replace_spaces (a @ r) = replace_spaces a @ replace_spaces r"
  using assms
proof (induction a rule: replace_spaces.induct)
  case 1
  then show ?case by simp
next
  case (2 c cs)
  show ?case
  proof (cases "is_space c")
    case False
    with 2 show ?thesis by (auto split: if_splits)
  next
    case True
    with "2.prems" have ne: "cs \<noteq> []" by auto
    let ?d = "dropWhile is_space cs"
    from "2.prems" ne have l: "\<not> is_space (last cs)" by simp
    then have dne: "?d \<noteq> []"
      using ne by (metis dropWhile_eq_Nil_conv last_in_set)
    have "last ?d = last cs"
      using dne by (metis last_appendR takeWhile_dropWhile_id)
    with l dne True "2.IH"(1) have ih: "replace_spaces (?d @ r) = replace_spaces ?d @ replace_spaces r"
      by simp
    have "dropWhile is_space (cs @ r) = ?d @ r"
      using dne by (metis dropWhile_append1 dropWhile_eq_Nil_conv)
    with True ih show ?thesis by simp
  qed
qed

lemma to_lower_char_word:
  assumes "is_word_char (to_lower_char c)"
  shows "is_lower_letter (to_lower_char c) \<or> is_digit (to_lower_char c) \<or> to_lower_char c = CHR ''_''"
proof -
  let ?n = "of_char c :: nat"
  have lt: "?n < 256" by simp
  consider (upper) "65 \<le> ?n \<and> ?n \<le> 90" | (latin) "192 \<le> ?n \<and> ?n \<le> 222 \<and> ?n \<noteq> 215"
    | (other) "\<not> (65 \<le> ?n \<and> ?n \<le> 90)" "\<not> (192 \<le> ?n \<and> ?n \<le> 222 \<and> ?n \<noteq> 215)"
    by blast
  then show ?thesis
  proof cases
    case upper
    then have "to_lower_char c = char_of (?n + 32)" by (simp add: to_lower_char_def Let_def)
    moreover from upper have "(of_char (char_of (?n + 32)) :: nat) = ?n + 32" by simp
    ultimately show ?thesis using upper by (simp add: is_lower_letter_def Let_def)
  next
    case latin
    then have "to_lower_char c = char_of (?n + 32)" by (simp add: to_lower_char_def Let_def)
    moreover from latin have "(of_char (char_of (?n + 32)) :: nat) = ?n + 32" by simp
    ultimately have "\<not> is_word_char (to_lower_char c)"
      using latin by (simp add: is_word_char_def Let_def)
    with assms show ?thesis by simp
  next
    case other
    then have eq: "to_lower_char c = c" by (auto simp: to_lower_char_def Let_def)
    show ?thesis
    proof (cases "?n = 95")
      case True
      then have "of_char c = (of_char CHR ''_'' :: nat)" by simp
      then have "c = CHR ''_''" by (simp only: of_char_eq_iff)
      with eq show ?thesis by simp
    next
      case False
      with assms other eq show ?thesis
        by (auto simp: is_word_char_def is_lower_letter_def is_digit_def Let_def)
    qed
  qed
qed

lemma seriesPattern_chars:
  assumes "c \<in> set (seriesPattern_of_title t)"
  shows "is_lower_letter c \<or> is_digit c \<or> c = CHR ''_'' \<or> c = CHR ''-''"
proof (cases "c = CHR ''-''")
  case True
  then show ?thesis by simp
next
  case False
  from assms have w: "is_word_char c" and "c \<in> set (replace_spaces (toLowerCase t))"
    using False by (auto simp: seriesPattern_of_title_def strip_non_word_def)
  with set_replace_spaces [of "toLowerCase t"] False have "c \<in> set (toLowerCase t)" by auto
  then obtain c0 where "c = to_lower_char c0" by (auto simp: toLowerCase_def)
  with w to_lower_char_word [of c0] show ?thesis by auto
qed

text \<open>
  C7 (as amended). The normalization of \<open>getEmbedByDataIdAndEpisode\<close> lowercases the title,
  replaces each maximal run of whitespace by one hyphen, and removes every character
  that is neither a word character \<open>[A-Za-z0-9_]\<close> nor a hyphen, so that the slug
  consists of lowercase letters, digits, underscores and hyphens. The normalization of
  \<open>getEmbedByDataId\<close> only lowercases and replaces the whitespace runs.
\<close>

theorem seriesPattern_of_title_chars:
  "seriesPattern_of_title t =
     filter (\<lambda>c. is_word_char c \<or> c = CHR ''-'') (replace_spaces (map to_lower_char t)) \<and>
   (\<forall>c \<in> set (seriesPattern_of_title t).
      is_lower_letter c \<or> is_digit c \<or> c = CHR ''_'' \<or> c = CHR ''-'') \<and>
   (ws \<noteq> [] \<and> list_all is_space ws \<and> (a = [] \<or> \<not> is_space (last a)) \<and>
    (b = [] \<or> \<not> is_space (hd b)) \<longrightarrow>
      replace_spaces (a @ ws @ b) = replace_spaces a @ ''-'' @ replace_spaces b) \<and>
   (\<not> list_ex is_space s \<longrightarrow> replace_spaces s = s) \<and>
   seriesId_of_title t = replace_spaces (map to_lower_char t)"
proof (intro conjI ballI impI)
  show "seriesPattern_of_title t =
     filter (\<lambda>c. is_word_char c \<or> c = CHR ''-'') (replace_spaces (map to_lower_char t))"
    by (simp add: seriesPattern_of_title_def strip_non_word_def toLowerCase_def)
  show "seriesId_of_title t = replace_spaces (map to_lower_char t)"
    by (simp add: seriesId_of_title_def toLowerCase_def)
  show "replace_spaces s = s" if "\<not> list_ex is_space s"
    using that by (rule replace_spaces_no_space)
  show "is_lower_letter c \<or> is_digit c \<or> c = CHR ''_'' \<or> c = CHR ''-''"
    if "c \<in> set (seriesPattern_of_title t)" for c
    using that by (rule seriesPattern_chars)
  show "replace_spaces (a @ ws @ b) = replace_spaces a @ ''-'' @ replace_spaces b"
    if "ws \<noteq> [] \<and> list_all is_space ws \<and> (a = [] \<or> \<not> is_space (last a)) \<and>
        (b = [] \<or> \<not> is_space (hd b))"
    using that by (simp add: replace_spaces_append replace_spaces_run)
qed

lemmas slug_simps = seriesPattern_of_title_def seriesId_of_title_def strip_non_word_def
  toLowerCase_def to_lower_char_def is_space_def is_word_char_def is_digit_def
  is_lower_letter_def char_of_eq_iff

theorem seriesPattern_of_title_chars_witness:
  "seriesPattern_of_title ''Dr. STONE  New World'' = ''dr-stone-new-world'' \<and>
   list_all (\<lambda>c. is_lower_letter c \<or> is_digit c \<or> c = CHR ''_'' \<or> c = CHR ''-'')
     (seriesPattern_of_title ''Dr. STONE  New World'') \<and>
   replace_spaces (''dr.'' @ ''  '' @ ''stone'') = ''dr.-stone'' \<and>
   replace_spaces ''one-piece'' = ''one-piece''"
proof -
  from seriesPattern_of_title_chars [of "''Dr. STONE  New World''" "''  ''" "''dr.''" "''stone''" "''one-piece''"]
  have "\<forall>c \<in> set (seriesPattern_of_title ''Dr. STONE  New World'').
      is_lower_letter c \<or> is_digit c \<or> c = CHR ''_'' \<or> c = CHR ''-''"
    and "''  '' \<noteq> [] \<and> list_all is_space ''  '' \<and> (''dr.'' = [] \<or> \<not> is_space (last ''dr.'')) \<and>
      (''stone'' = [] \<or> \<not> is_space (hd ''stone'')) \<longrightarrow>
      replace_spaces (''dr.'' @ ''  '' @ ''stone'') = replace_spaces ''dr.'' @ ''-'' @ replace_spaces ''stone''"
    and "\<not> list_ex is_space ''one-piece'' \<longrightarrow> replace_spaces ''one-piece'' = ''one-piece''"
    by blast+
  then show ?thesis by (simp add: list_all_iff) (simp add: slug_simps)
qed

theorem seriesPattern_of_title_chars_counterexample:
  "seriesPattern_of_title ''Re:Zero_2 Final'' = ''rezero_2-final'' \<and>
   CHR ''_'' \<in> set (seriesPattern_of_title ''Re:Zero_2 Final'') \<and>
   CHR ''_'' \<notin> set ''abcdefghijklmnopqrstuvwxyz0123456789-'' \<and>
   seriesId_of_title ''Re:Zero_2 Final'' = ''re:zero_2-final'' \<and>
   CHR '':'' \<in> set (seriesId_of_title ''Re:Zero_2 Final'')"
  by (simp add: slug_simps)

section \<open>Properties of the page parser\<close>

lemma example_env_sel:
  "baseUrl (example_env pages api race) = ''https://watchanimeworld.in''"
  "http_get_page (example_env pages api race) u w = (pages u, w)"
  "http_get_api (example_env pages api race) q w = (api q, w)"
  "http_get_api_race (example_env pages api race) ms w = (race, w)"
  "large_number (example_env pages api race) = dec_string"
  "loadCheerio (example_env pages api race) ''<options>'' = example_page"
  "loadCheerio (example_env pages api race) ''<frameless>'' = frameless_page"
  "loadCheerio (example_env pages api race) ''<quoted>'' = quoted_page"
  "loadCheerio (example_env pages api race) ''<html></html>'' = empty_page"
  by (simp_all add: example_env_def)

lemmas ex_simps = example_env_sel example_page_def empty_page_def frameless_page_def quoted_page_def
  extract_html_def select_options_def option_entry_def or_else_def truthy_def trim_def
  is_space_def is_digit_def parseInt10_def nat_of_digits_def digit_val_def round_double_def
  number_to_string_def dec_string.simps num_key_def char_of_eq_iff

lemma example_extract:
  "extract_html (example_env pages api race) ''<options>'' u =
     Inr \<lparr>embed_id = [],
          servers = [\<lparr>server = Num 0, name = ''Server 0'', url = ''https://play.example/e/0''\<rparr>,
                     \<lparr>server = Num 2, name = ''Play'', url = ''https://play.example/e/2''\<rparr>],
          externalApiMapping = None\<rparr>"
  by (simp add: ex_simps)

lemma example_extract_empty:
  "extract_html (example_env pages api race) ''<html></html>'' u =
     Inr \<lparr>embed_id = [], servers = [], externalApiMapping = None\<rparr>"
  by (simp add: ex_simps)

lemma example_extract_frameless:
  "extract_html (example_env pages api race) ''<frameless>'' u =
     Inr \<lparr>embed_id = [], servers = [], externalApiMapping = None\<rparr>"
  by (simp add: ex_simps)

lemma example_extract_quoted:
  "extract_html (example_env pages api race) ''<quoted>'' u = Inl selector_error"
  by (simp add: ex_simps)

lemma example_parse:
  "parseEpisodeId ''spy-x-family-3x1'' =
     Some \<lparr>animeTitle = ''spy-x-family'', season = Num 3, episode = Num 1\<rparr>"
  by (simp add: parseEpisodeId_def match_suffix_def is_line_terminator_def is_digit_def
      parseInt10_def nat_of_digits_def digit_val_def round_double_def)

lemma trim_empty_iff: "trim s = [] \<longleftrightarrow> list_all is_space s"
proof
  assume "trim s = []"
  then have a: "\<forall>x \<in> set (dropWhile is_space s). is_space x"
    by (simp add: trim_def dropWhile_eq_Nil_conv)
  have "dropWhile is_space s = []"
  proof (rule ccontr)
    assume ne: "dropWhile is_space s \<noteq> []"
    then have "\<not> is_space (hd (dropWhile is_space s))" by (simp add: hd_dropWhile)
    with a ne show False by (metis list.set_sel(1))
  qed
  then show "list_all is_space s" by (simp add: dropWhile_eq_Nil_conv list_all_iff)
next
  assume "list_all is_space s"
  then show "trim s = []"
    by (auto simp: trim_def list_all_iff dest: set_dropWhileD)
qed

lemma option_entry_name: "option_entry large p d = Inr (Some e) \<Longrightarrow> name e \<noteq> []"
  by (auto simp: option_entry_def Let_def split: option.splits if_splits sum.splits)

lemma option_entry_url: "option_entry large p d = Inr (Some e) \<Longrightarrow> url e \<noteq> []"
  by (auto simp: option_entry_def Let_def split: option.splits if_splits sum.splits)

lemma each_option_set:
  "each_option large p ds = Inr es \<Longrightarrow>
   set es = {e. \<exists>d \<in> set ds. option_entry large p d = Inr (Some e)}"
proof (induction ds arbitrary: es)
  case Nil
  then show ?case by simp
next
  case (Cons d ds)
  then show ?case
    by (auto split: sum.splits option.splits)
qed

lemma each_option_length:
  "each_option large p ds = Inr es \<Longrightarrow>
   length es = length (filter (\<lambda>d. \<exists>e. option_entry large p d = Inr (Some e)) ds)"
proof (induction ds arbitrary: es)
  case Nil
  then show ?case by simp
next
  case (Cons d ds)
  then show ?case
    by (auto split: sum.splits option.splits)
qed

lemma each_option_Inl_iff:
  "(\<exists>e. each_option large p ds = Inl e) \<longleftrightarrow> (\<exists>d \<in> set ds. \<exists>e. option_entry large p d = Inl e)"
  by (induction ds) (auto split: sum.splits option.splits)

lemma set_servers_extract:
  "extract_html env html u = Inr data \<Longrightarrow>
   set (servers data) =
   {e. \<exists>d \<in> set (select_options (loadCheerio env html)).
         option_entry (large_number env) (loadCheerio env html) d = Inr (Some e)}"
  by (auto simp: extract_html_def Let_def split: sum.splits dest!: each_option_set)

lemma extract_html_Inr:
  "extract_html env html u = Inr data \<Longrightarrow> embed_id data = [] \<and> externalApiMapping data = None"
  by (auto simp: extract_html_def Let_def split: sum.splits)

text \<open>
  C9. In every result of \<open>extract\<close> the servers are sorted ascending by their server
  number, and every name is non-empty: an option whose tab label is absent or blank is
  named \<open>Server\<close> followed by its number.
\<close>

theorem extract_sorted_named:
  "extract_html env html u = Inr data \<longrightarrow>
   sorted (map (\<lambda>e. num_key (server e)) (servers data)) \<and>
   (\<forall>e \<in> set (servers data). name e \<noteq> []) \<and>
   (\<forall>d \<in> set (select_options (loadCheerio env html)). \<forall>i e t.
       div_id d = Some i \<and> option_entry (large_number env) (loadCheerio env html) d = Inr (Some e) \<and>
       server_label (loadCheerio env html) i = Inr t \<and> list_all is_space t \<longrightarrow>
       e \<in> set (servers data) \<and>
       name e = ''Server '' @ number_to_string (large_number env) (server e))"
proof (intro impI conjI ballI allI)
  assume x: "extract_html env html u = Inr data"
  then show "sorted (map (\<lambda>e. num_key (server e)) (servers data))"
    by (auto simp: extract_html_def Let_def sorted_sort_key split: sum.splits)
  show "name e \<noteq> []" if "e \<in> set (servers data)" for e
    using that set_servers_extract [OF x] by (auto simp: option_entry_name)
  fix d i e t
  assume d: "d \<in> set (select_options (loadCheerio env html))"
    and h: "div_id d = Some i \<and> option_entry (large_number env) (loadCheerio env html) d = Inr (Some e) \<and>
       server_label (loadCheerio env html) i = Inr t \<and> list_all is_space t"
  from d h set_servers_extract [OF x] show "e \<in> set (servers data)" by auto
  from h show "name e = ''Server '' @ number_to_string (large_number env) (server e)"
    by (auto simp: option_entry_def Let_def trim_empty_iff [symmetric] split: option.splits if_splits)
qed

theorem extract_sorted_named_witness:
  "extract_html (example_env (failing_pages not_found) no_api None) ''<options>'' ''u'' =
     Inr (\<lparr>embed_id = [],
           servers = [\<lparr>server = Num 0, name = ''Server 0'', url = ''https://play.example/e/0''\<rparr>,
                      \<lparr>server = Num 2, name = ''Play'', url = ''https://play.example/e/2''\<rparr>],
           externalApiMapping = None\<rparr> :: unit embed_data) \<and>
   sorted (map (\<lambda>e. num_key (server e))
     [\<lparr>server = Num 0, name = ''Server 0'', url = ''https://play.example/e/0''\<rparr>,
      \<lparr>server = Num 2, name = ''Play'', url = ''https://play.example/e/2''\<rparr>]) \<and>
   list_all (\<lambda>e. name e \<noteq> [])
     [\<lparr>server = Num 0, name = ''Server 0'', url = ''https://play.example/e/0''\<rparr>,
      \<lparr>server = Num 2, name = ''Play'', url = ''https://play.example/e/2''\<rparr>]"
proof -
  let ?env = "example_env (failing_pages not_found) no_api None"
  let ?data = "\<lparr>embed_id = [],
           servers = [\<lparr>server = Num 0, name = ''Server 0'', url = ''https://play.example/e/0''\<rparr>,
                      \<lparr>server = Num 2, name = ''Play'', url = ''https://play.example/e/2''\<rparr>],
           externalApiMapping = None\<rparr> :: unit embed_data"
  have x: "extract_html ?env ''<options>'' ''u'' = Inr ?data"
    by (rule example_extract)
  from extract_sorted_named [of ?env "''<options>''" "''u''" ?data, THEN mp, OF x]
  have "sorted (map (\<lambda>e. num_key (server e)) (servers ?data))"
    and "\<forall>e \<in> set (servers ?data). name e \<noteq> []"
    by blast+
  with x show ?thesis by (simp add: list_all_iff)
qed

lemma option_entry_Some_iff:
  "(\<exists>e. option_entry large p d = Inr (Some e)) \<longleftrightarrow>
   (\<exists>i ds t. div_id d = Some i \<and> match_options i = Some ds \<and> server_label p i = Inr t \<and>
      (truthy (iframe_src d) \<or> truthy (iframe_data_src d)))"
  by (auto simp: option_entry_def Let_def or_else_def truthy_def split: option.splits if_splits sum.splits)

lemma option_entry_Inl_iff:
  "option_entry large p d = Inl err \<longleftrightarrow>
   (\<exists>i ds. div_id d = Some i \<and> match_options i = Some ds \<and> server_label p i = Inl err)"
  by (auto simp: option_entry_def Let_def split: option.splits if_splits sum.splits)

lemma option_entry_url_src:
  "option_entry large p d = Inr (Some e) \<Longrightarrow>
   (truthy (iframe_src d) \<longrightarrow> iframe_src d = Some (url e)) \<and>
   (\<not> truthy (iframe_src d) \<longrightarrow> iframe_data_src d = Some (url e))"
  by (auto simp: option_entry_def Let_def or_else_def truthy_def split: option.splits if_splits sum.splits)

lemma extract_entries:
  "extract_html env html u = Inr data \<Longrightarrow>
   (\<forall>e \<in> set (servers data). url e \<noteq> []) \<and>
   length (servers data) =
     length (filter (\<lambda>d. \<exists>e. option_entry (large_number env) (loadCheerio env html) d = Inr (Some e))
               (select_options (loadCheerio env html)))"
proof
  assume x: "extract_html env html u = Inr data"
  show "\<forall>e \<in> set (servers data). url e \<noteq> []"
    using set_servers_extract [OF x] by (auto simp: option_entry_url)
  from x show "length (servers data) =
     length (filter (\<lambda>d. \<exists>e. option_entry (large_number env) (loadCheerio env html) d = Inr (Some e))
               (select_options (loadCheerio env html)))"
    by (auto simp: extract_html_def Let_def split: sum.splits dest!: each_option_length)
qed

lemma extract_html_throws_iff:
  "(\<exists>err. extract_html env html u = Inl err) \<longleftrightarrow>
   (\<exists>d \<in> set (select_options (loadCheerio env html)). \<exists>i ds err.
      div_id d = Some i \<and> match_options i = Some ds \<and> server_label (loadCheerio env html) i = Inl err)"
proof -
  have "(\<exists>err. extract_html env html u = Inl err) \<longleftrightarrow>
      (\<exists>err. each_option (large_number env) (loadCheerio env html)
                (select_options (loadCheerio env html)) = Inl err)"
    by (auto simp: extract_html_def Let_def split: sum.splits)
  then show ?thesis
    by (simp add: each_option_Inl_iff option_entry_Inl_iff) blast
qed

text \<open>
  C10. The claim holds of the entries that \<open>extract\<close> returns (\<open>extract_entries\<close>: every
  url is non-empty, and only blocks with a matching id and a usable frame address
  contribute), but not of the errors: a block without a frame is not always passed over
  in silence. On a page whose only \<open>options-\<close> block has no frame and the id \<open>options-1\<close>
  followed by a double quote, the id matches \<open>options-(\d+)\<close>, the tab link is queried
  before the frame address is tested, the selector built from the id does not parse,
  and \<open>extract\<close> throws.
\<close>

theorem extract_quoted_id_throws:
  "select_options (loadCheerio (example_env (failing_pages not_found) no_api None) ''<quoted>'') =
     [\<lparr>div_id = Some (''options-1'' @ [CHR 0x22]), iframe_src = None, iframe_data_src = None\<rparr>] \<and>
   match_options (''options-1'' @ [CHR 0x22]) = Some ''1'' \<and>
   or_else None (or_else None []) = [] \<and>
   server_label (loadCheerio (example_env (failing_pages not_found) no_api None) ''<quoted>'')
     (''options-1'' @ [CHR 0x22]) = Inl selector_error \<and>
   (extract_html (example_env (failing_pages not_found) no_api None) ''<quoted>'' ''u''
      :: js_error + unit embed_data) = Inl selector_error"
  by (simp add: ex_simps)

text \<open>
  C8. On a page with no \<open>options-*\<close> block \<open>extract\<close> returns a result with an empty
  server list, not an error. A fetch whose page parses to no server at all is the
  result and ends the attempts: \<open>extractFromUrl\<close> returns the empty result after the one
  request for the episode page, without going to the series or movie page; its loop
  over the detail pages stops at such a page; and \<open>getEmbedByDataIdAndEpisode\<close> returns
  the empty result of its episode page without going through the candidates.
\<close>

theorem extract_no_options:
  "(select_options (loadCheerio env html) = [] \<longrightarrow>
      extract_html env html u = Inr \<lparr>embed_id = [], servers = [], externalApiMapping = None\<rparr>) \<and>
   (http_get_page env (baseUrl env @ ''/episode/'' @ i @ ''/'') w = (Inr html, w') \<and>
    extract_html env html (baseUrl env @ ''/episode/'' @ i @ ''/'') = Inr data \<and> servers data = [] \<longrightarrow>
      extractFromUrl env i (w, reqs) =
        (Inr (data\<lparr>embed_id := i\<rparr>), (w', reqs @ [baseUrl env @ ''/episode/'' @ i @ ''/''])) \<and>
      data\<lparr>embed_id := i\<rparr> = \<lparr>embed_id = i, servers = [], externalApiMapping = None\<rparr>) \<and>
   (http_get_page env du w = (Inr html, w') \<and> extract_html env html du = Inr data \<and> servers data = [] \<longrightarrow>
      try_detail_urls env i (du # rest) lastDetailError (w, reqs) =
        (Inr (data\<lparr>embed_id := i\<rparr>), (w', reqs @ [du]))) \<and>
   (http_get_page env (baseUrl env @ ''/episode/'' @ constructedEpisodeId env resolvedTitle dataId se ep @ ''/'') w
      = (Inr html, w') \<and>
    extract_html env html (baseUrl env @ ''/episode/'' @ constructedEpisodeId env resolvedTitle dataId se ep @ ''/'')
      = Inr (data' :: unit embed_data) \<and> servers data' = [] \<longrightarrow>
      (\<exists>d. fetchByPatterns env resolvedTitle dataId se ep (w, reqs) =
             (Inr d, (w', reqs @ [baseUrl env @ ''/episode/''
                                    @ constructedEpisodeId env resolvedTitle dataId se ep @ ''/''])) \<and>
           servers d = []))"
proof (intro conjI impI)
  show "extract_html env html u = Inr \<lparr>embed_id = [], servers = [], externalApiMapping = None\<rparr>"
    if "select_options (loadCheerio env html) = []"
    using that by (simp add: extract_html_def)
next
  let ?u = "baseUrl env @ ''/episode/'' @ i @ ''/''"
  assume h: "http_get_page env ?u w = (Inr html, w') \<and> extract_html env html ?u = Inr data \<and> servers data = []"
  then show "data\<lparr>embed_id := i\<rparr> = \<lparr>embed_id = i, servers = [], externalApiMapping = None\<rparr>"
    using extract_html_Inr [of env html ?u data] by (cases data) simp
  from h show "extractFromUrl env i (w, reqs) = (Inr (data\<lparr>embed_id := i\<rparr>), (w', reqs @ [?u]))"
    by (simp add: extractFromUrl_def fetchAndExtract_def attempt_def Let_def)
next
  assume h: "http_get_page env du w = (Inr html, w') \<and> extract_html env html du = Inr data \<and> servers data = []"
  then show "try_detail_urls env i (du # rest) lastDetailError (w, reqs) =
        (Inr (data\<lparr>embed_id := i\<rparr>), (w', reqs @ [du]))"
    by (simp add: fetchAndExtract_def attempt_def)
next
  let ?u = "baseUrl env @ ''/episode/'' @ constructedEpisodeId env resolvedTitle dataId se ep @ ''/''"
  assume h: "http_get_page env ?u w = (Inr html, w') \<and> extract_html env html ?u = Inr (data' :: unit embed_data) \<and> servers data' = []"
  then show "\<exists>d. fetchByPatterns env resolvedTitle dataId se ep (w, reqs) = (Inr d, (w', reqs @ [?u])) \<and>
           servers d = []"
    by (simp add: fetchByPatterns_def fetchAndExtract_def attempt_def episode_data_def Let_def)
qed

theorem extract_no_options_witness:
  "select_options (loadCheerio
     (example_env (only_page ''https://watchanimeworld.in/episode/naruto-1x1/'' ''<frameless>'') no_api None)
     ''<html></html>'') = [] \<and>
   extract_html
     (example_env (only_page ''https://watchanimeworld.in/episode/naruto-1x1/'' ''<frameless>'') no_api None)
     ''<html></html>'' ''u'' =
     Inr (\<lparr>embed_id = [], servers = [], externalApiMapping = None\<rparr> :: unit embed_data) \<and>
   length (select_options (loadCheerio
     (example_env (only_page ''https://watchanimeworld.in/episode/naruto-1x1/'' ''<frameless>'') no_api None)
     ''<frameless>'')) = 1 \<and>
   http_get_page
     (example_env (only_page ''https://watchanimeworld.in/episode/naruto-1x1/'' ''<frameless>'') no_api None)
     ''https://watchanimeworld.in/episode/naruto-1x1/'' () = (Inr ''<frameless>'', ()) \<and>
   extract_html
     (example_env (only_page ''https://watchanimeworld.in/episode/naruto-1x1/'' ''<frameless>'') no_api None)
     ''<frameless>'' ''https://watchanimeworld.in/episode/naruto-1x1/'' =
     Inr (\<lparr>embed_id = [], servers = [], externalApiMapping = None\<rparr> :: unit embed_data) \<and>
   extractFromUrl
     (example_env (only_page ''https://watchanimeworld.in/episode/naruto-1x1/'' ''<frameless>'') no_api None)
     ''naruto-1x1'' ((), []) =
     (Inr (\<lparr>embed_id = ''naruto-1x1'', servers = [], externalApiMapping = None\<rparr> :: unit embed_data),
      ((), [''https://watchanimeworld.in/episode/naruto-1x1/'']))"
proof -
  let ?u = "''https://watchanimeworld.in/episode/naruto-1x1/''"
  let ?env = "example_env (only_page ?u ''<frameless>'') no_api None"
  let ?e = "\<lparr>embed_id = [], servers = [], externalApiMapping = None\<rparr> :: unit embed_data"
  have h1: "select_options (loadCheerio ?env ''<html></html>'') = []"
    by (simp add: example_env_sel empty_page_def select_options_def)
  have h2: "http_get_page ?env (baseUrl ?env @ ''/episode/'' @ ''naruto-1x1'' @ ''/'') () =
      (Inr ''<frameless>'', ())"
    by (simp add: example_env_sel only_page_def)
  have h3: "extract_html ?env ''<frameless>'' (baseUrl ?env @ ''/episode/'' @ ''naruto-1x1'' @ ''/'') = Inr ?e"
    by (rule example_extract_frameless)
  have h4: "length (select_options (loadCheerio ?env ''<frameless>'')) = 1"
    by (simp add: example_env_sel frameless_page_def select_options_def)
  note thms = extract_no_options [where env = ?env and i = "''naruto-1x1''" and w = "()" and w' = "()"
      and reqs = "[]" and data = ?e]
  from thms [where html = "''<html></html>''" and u = "''u''", THEN conjunct1, THEN mp, OF h1]
  have c1: "extract_html ?env ''<html></html>'' ''u'' = Inr ?e" .
  from thms [where html = "''<frameless>''", THEN conjunct2, THEN conjunct1, THEN mp] h2 h3
  have c2: "extractFromUrl ?env ''naruto-1x1'' ((), []) =
      (Inr (\<lparr>embed_id = ''naruto-1x1'', servers = [], externalApiMapping = None\<rparr> :: unit embed_data),
       ((), [] @ [baseUrl ?env @ ''/episode/'' @ ''naruto-1x1'' @ ''/'']))"
    by auto
  from h1 h2 h3 h4 c1 c2 show ?thesis by (simp add: example_env_sel)
qed

section \<open>Properties of \<open>extractFromUrl\<close>\<close>

lemma prefix_iff_append: "prefix sub m \<longleftrightarrow> (\<exists>b. m = sub @ b)"
  by (auto simp: prefix_def)

lemma str_includes_iff: "str_includes m sub \<longleftrightarrow> (\<exists>a b. m = a @ sub @ b)"
proof (induction m)
  case Nil
  then show ?case by auto
next
  case (Cons c cs)
  show ?case
  proof
    assume "str_includes (c # cs) sub"
    then consider "prefix sub (c # cs)" | "str_includes cs sub" by auto
    then show "\<exists>a b. c # cs = a @ sub @ b"
    proof cases
      case 1
      then obtain b where "c # cs = sub @ b" by (auto simp: prefix_def)
      then show ?thesis by (intro exI [of _ "[]"] exI [of _ b]) simp
    next
      case 2
      with Cons obtain a b where "cs = a @ sub @ b" by auto
      then show ?thesis by (intro exI [of _ "c # a"] exI [of _ b]) simp
    qed
  next
    assume "\<exists>a b. c # cs = a @ sub @ b"
    then obtain a b where eq: "c # cs = a @ sub @ b" by auto
    show "str_includes (c # cs) sub"
    proof (cases a)
      case Nil
      with eq have "prefix sub (c # cs)" by (auto simp: prefix_def)
      then show ?thesis by simp
    next
      case (Cons x xs)
      with eq have "cs = xs @ sub @ b" by simp
      with Cons.IH have "str_includes cs sub" by auto
      then show ?thesis by simp
    qed
  qed
qed

lemma is404_iff:
  "is404 error \<longleftrightarrow>
   response_status error = Some 404 \<or> status error = Some 404 \<or>
   (\<exists>a b. message error = Some (a @ ''404'' @ b)) \<or> code error = Some ''ENOTFOUND''"
  by (auto simp: is404_def str_includes_iff split: option.splits)

text \<open>
  C1 (as amended). When the attempt at the episode page fails, in the request or in the
  parse of the page, with an error that the test of the code does not class as not
  found, \<open>extractFromUrl\<close> fails with that very error, and the episode page is the only
  request it has made. The test classes an error as not found when its response status
  or status is 404, its message contains \<open>404\<close>, or its code is \<open>ENOTFOUND\<close>.
\<close>

theorem extractFromUrl_no_fallback:
  "(http_get_page env (baseUrl env @ ''/episode/'' @ i @ ''/'') w = (Inl error, w') \<and> \<not> is404 error \<longrightarrow>
      extractFromUrl env i (w, reqs) =
        (Inl error :: js_error + 'm embed_data, (w', reqs @ [baseUrl env @ ''/episode/'' @ i @ ''/'']))) \<and>
   (http_get_page env (baseUrl env @ ''/episode/'' @ i @ ''/'') w = (Inr html, w') \<and>
    extract_html env html (baseUrl env @ ''/episode/'' @ i @ ''/'') = (Inl error :: js_error + 'm embed_data) \<and>
    \<not> is404 error \<longrightarrow>
      extractFromUrl env i (w, reqs) =
        (Inl error :: js_error + 'm embed_data, (w', reqs @ [baseUrl env @ ''/episode/'' @ i @ ''/'']))) \<and>
   (is404 err \<longleftrightarrow>
      response_status err = Some 404 \<or> status err = Some 404 \<or>
      (\<exists>a b. message err = Some (a @ ''404'' @ b)) \<or> code err = Some ''ENOTFOUND'')"
  by (simp add: extractFromUrl_def fetchAndExtract_def attempt_def Let_def is404_iff)

theorem extractFromUrl_no_fallback_witness:
  "http_get_page (example_env (failing_pages timeout_error) no_api None)
     ''https://watchanimeworld.in/episode/naruto-1x1/'' () = (Inl timeout_error, ()) \<and>
   \<not> is404 timeout_error \<and>
   extractFromUrl (example_env (failing_pages timeout_error) no_api None) ''naruto-1x1'' ((), []) =
     (Inl timeout_error :: js_error + unit embed_data, ((), [''https://watchanimeworld.in/episode/naruto-1x1/''])) \<and>
   http_get_page (example_env (only_page ''https://watchanimeworld.in/episode/naruto-1x1/'' ''<quoted>'') no_api None)
     ''https://watchanimeworld.in/episode/naruto-1x1/'' () = (Inr ''<quoted>'', ()) \<and>
   \<not> is404 selector_error \<and>
   extractFromUrl (example_env (only_page ''https://watchanimeworld.in/episode/naruto-1x1/'' ''<quoted>'') no_api None)
     ''naruto-1x1'' ((), []) =
     (Inl selector_error :: js_error + unit embed_data, ((), [''https://watchanimeworld.in/episode/naruto-1x1/'']))"
proof -
  let ?u = "''https://watchanimeworld.in/episode/naruto-1x1/''"
  let ?env = "example_env (failing_pages timeout_error) no_api None"
  let ?env2 = "example_env (only_page ?u ''<quoted>'') no_api None"
  have h1: "http_get_page ?env (baseUrl ?env @ ''/episode/'' @ ''naruto-1x1'' @ ''/'') () = (Inl timeout_error, ())"
    by (simp add: example_env_sel failing_pages_def)
  have h2: "\<not> is404 timeout_error"
    by (simp add: is404_def timeout_error_def)
  have h3: "http_get_page ?env2 (baseUrl ?env2 @ ''/episode/'' @ ''naruto-1x1'' @ ''/'') () = (Inr ''<quoted>'', ())"
    by (simp add: example_env_sel only_page_def)
  have h4: "extract_html ?env2 ''<quoted>'' (baseUrl ?env2 @ ''/episode/'' @ ''naruto-1x1'' @ ''/'') =
      (Inl selector_error :: js_error + unit embed_data)"
    by (rule example_extract_quoted)
  have h5: "\<not> is404 selector_error"
    by (simp add: is404_def selector_error_def Error_def)
  from extractFromUrl_no_fallback [where env = ?env and i = "''naruto-1x1''" and w = "()" and w' = "()"
      and error = timeout_error and reqs = "[]", THEN conjunct1, THEN mp] h1 h2
  have c1: "extractFromUrl ?env ''naruto-1x1'' ((), []) =
     (Inl timeout_error :: js_error + unit embed_data,
      ((), [] @ [baseUrl ?env @ ''/episode/'' @ ''naruto-1x1'' @ ''/'']))"
    by blast
  from extractFromUrl_no_fallback [where env = ?env2 and i = "''naruto-1x1''" and w = "()" and w' = "()"
      and error = selector_error and reqs = "[]" and html = "''<quoted>''",
      THEN conjunct2, THEN conjunct1, THEN mp] h3 h4 h5
  have c2: "extractFromUrl ?env2 ''naruto-1x1'' ((), []) =
     (Inl selector_error :: js_error + unit embed_data,
      ((), [] @ [baseUrl ?env2 @ ''/episode/'' @ ''naruto-1x1'' @ ''/'']))"
    by blast
  from h1 h2 h3 h5 c1 c2 show ?thesis by (simp add: example_env_sel)
qed

lemma try_detail_urls_all_fail:
  "try_detail_urls (example_env (failing_pages e) api race) i urls l ((), reqs) =
     (Inl (if urls = [] then l else Some e) :: js_error option + 'm embed_data, ((), reqs @ urls))"
  by (induction urls arbitrary: l reqs)
     (simp_all add: fetchAndExtract_def attempt_def example_env_sel failing_pages_def)

theorem extractFromUrl_no_fallback_counterexample:
  "code dns_error = Some ''ENOTFOUND'' \<and> response_status dns_error = None \<and> status dns_error = None \<and>
   http_get_page (example_env (failing_pages dns_error) no_api None)
     ''https://watchanimeworld.in/episode/naruto-1x1/'' () = (Inl dns_error, ()) \<and>
   extractFromUrl (example_env (failing_pages dns_error) no_api None) ''naruto-1x1'' ((), []) =
     (Inl dns_error :: js_error + unit embed_data,
      ((), [''https://watchanimeworld.in/episode/naruto-1x1/'',
            ''https://watchanimeworld.in/series/naruto/'',
            ''https://watchanimeworld.in/movies/naruto/''])) \<and>
   message long_timeout_error = Some ''timeout of 40400ms exceeded'' \<and>
   extractFromUrl (example_env (failing_pages long_timeout_error) no_api None) ''naruto-1x1'' ((), []) =
     (Inl long_timeout_error :: js_error + unit embed_data,
      ((), [''https://watchanimeworld.in/episode/naruto-1x1/'',
            ''https://watchanimeworld.in/series/naruto/'',
            ''https://watchanimeworld.in/movies/naruto/'']))"
proof -
  have g: "getSeriesIdFromEpisodeId ''naruto-1x1'' = ''naruto''"
    by (simp add: getSeriesIdFromEpisodeId_def match_suffix_def is_line_terminator_def is_digit_def Let_def)
  have a: "is404 dns_error" by (simp add: is404_def dns_error_def)
  have b: "is404 long_timeout_error" by (simp add: is404_def long_timeout_error_def)
  have "extractFromUrl (example_env (failing_pages dns_error) no_api None) ''naruto-1x1'' ((), []) =
     (Inl dns_error :: js_error + unit embed_data,
      ((), [''https://watchanimeworld.in/episode/naruto-1x1/'',
            ''https://watchanimeworld.in/series/naruto/'',
            ''https://watchanimeworld.in/movies/naruto/'']))"
    by (simp add: extractFromUrl_def fetchAndExtract_def attempt_def example_env_sel failing_pages_def
        a g try_detail_urls_all_fail del: try_detail_urls.simps)
  moreover have "extractFromUrl (example_env (failing_pages long_timeout_error) no_api None) ''naruto-1x1'' ((), []) =
     (Inl long_timeout_error :: js_error + unit embed_data,
      ((), [''https://watchanimeworld.in/episode/naruto-1x1/'',
            ''https://watchanimeworld.in/series/naruto/'',
            ''https://watchanimeworld.in/movies/naruto/'']))"
    by (simp add: extractFromUrl_def fetchAndExtract_def attempt_def example_env_sel failing_pages_def
        b g try_detail_urls_all_fail del: try_detail_urls.simps)
  ultimately show ?thesis
    by (simp add: example_env_sel failing_pages_def) (simp add: dns_error_def long_timeout_error_def)
qed

lemma getSeriesIdFromEpisodeId_strip:
  assumes "slug \<noteq> []" "\<not> list_ex is_line_terminator slug"
    and "s \<noteq> []" "list_all is_digit s" "e \<noteq> []" "list_all is_digit e"
  shows "getSeriesIdFromEpisodeId (slug @ ''-'' @ s @ ''x'' @ e) = slug"
  using match_lazy_composite [OF assms, of "[]"] by (simp add: getSeriesIdFromEpisodeId_def)

lemma getSeriesIdFromEpisodeId_unchanged:
  assumes "\<forall>t d1 d2. d1 \<noteq> [] \<and> list_all is_digit d1 \<and> d2 \<noteq> [] \<and> list_all is_digit d2 \<longrightarrow>
          x \<noteq> t @ ''-'' @ d1 @ ''x'' @ d2"
  shows "getSeriesIdFromEpisodeId x = x"
proof (cases "match_lazy [] x")
  case None
  then show ?thesis by (simp add: getSeriesIdFromEpisodeId_def)
next
  case (Some r)
  obtain p d1 d2 where "r = (p, d1, d2)" by (cases r)
  with Some match_lazy_SomeD [of "[]" x p d1 d2] assms show ?thesis by auto
qed

text \<open>
  C6. When the attempt at the episode page fails with an error that \<open>is404\<close> classes as
  not found, \<open>extractFromUrl\<close> derives the series slug from the identifier and attempts
  the series page and then, if that attempt fails, the movie page; it returns the
  result of the first of the two that is fetched and parsed, with the requested
  identifier as its id, and the error of the movie page when both fail. An attempt is
  the request for the page followed by \<open>extract\<close>, and fails when either does. The series
  slug is the identifier without a trailing \<open>-<digits>x<digits>\<close>, and the identifier
  itself when it has no such suffix.
\<close>

theorem extractFromUrl_fallback_order:
  "(attempt env (baseUrl env @ ''/episode/'' @ i @ ''/'') w = (Inl error :: js_error + 'm embed_data, w1) \<and>
    is404 error \<and>
    attempt env (baseUrl env @ ''/series/'' @ getSeriesIdFromEpisodeId i @ ''/'') w1 = (Inr data, w2) \<longrightarrow>
      extractFromUrl env i (w, reqs) =
        (Inr (data\<lparr>embed_id := i\<rparr>) :: js_error + 'm embed_data,
         (w2, reqs @ [baseUrl env @ ''/episode/'' @ i @ ''/'',
                      baseUrl env @ ''/series/'' @ getSeriesIdFromEpisodeId i @ ''/'']))) \<and>
   (attempt env (baseUrl env @ ''/episode/'' @ i @ ''/'') w = (Inl error :: js_error + 'm embed_data, w1) \<and>
    is404 error \<and>
    attempt env (baseUrl env @ ''/series/'' @ getSeriesIdFromEpisodeId i @ ''/'') w1 =
      (Inl error2 :: js_error + 'm embed_data, w2) \<and>
    attempt env (baseUrl env @ ''/movies/'' @ getSeriesIdFromEpisodeId i @ ''/'') w2 = (Inr data, w3) \<longrightarrow>
      extractFromUrl env i (w, reqs) =
        (Inr (data\<lparr>embed_id := i\<rparr>) :: js_error + 'm embed_data,
         (w3, reqs @ [baseUrl env @ ''/episode/'' @ i @ ''/'',
                      baseUrl env @ ''/series/'' @ getSeriesIdFromEpisodeId i @ ''/'',
                      baseUrl env @ ''/movies/'' @ getSeriesIdFromEpisodeId i @ ''/'']))) \<and>
   (attempt env (baseUrl env @ ''/episode/'' @ i @ ''/'') w = (Inl error :: js_error + 'm embed_data, w1) \<and>
    is404 error \<and>
    attempt env (baseUrl env @ ''/series/'' @ getSeriesIdFromEpisodeId i @ ''/'') w1 =
      (Inl error2 :: js_error + 'm embed_data, w2) \<and>
    attempt env (baseUrl env @ ''/movies/'' @ getSeriesIdFromEpisodeId i @ ''/'') w2 =
      (Inl error3 :: js_error + 'm embed_data, w3) \<longrightarrow>
      extractFromUrl env i (w, reqs) =
        (Inl error3 :: js_error + 'm embed_data,
         (w3, reqs @ [baseUrl env @ ''/episode/'' @ i @ ''/'',
                      baseUrl env @ ''/series/'' @ getSeriesIdFromEpisodeId i @ ''/'',
                      baseUrl env @ ''/movies/'' @ getSeriesIdFromEpisodeId i @ ''/'']))) \<and>
   (http_get_page env pu pw = (Inl perror, pw') \<longrightarrow>
      attempt env pu pw = (Inl perror :: js_error + 'm embed_data, pw')) \<and>
   (http_get_page env pu pw = (Inr phtml, pw') \<longrightarrow>
      attempt env pu pw = (extract_html env phtml pu :: js_error + 'm embed_data, pw')) \<and>
   (slug \<noteq> [] \<and> \<not> list_ex is_line_terminator slug \<and>
    s \<noteq> [] \<and> list_all is_digit s \<and> e \<noteq> [] \<and> list_all is_digit e \<longrightarrow>
      getSeriesIdFromEpisodeId (slug @ ''-'' @ s @ ''x'' @ e) = slug) \<and>
   ((\<forall>t d1 d2. d1 \<noteq> [] \<and> list_all is_digit d1 \<and> d2 \<noteq> [] \<and> list_all is_digit d2 \<longrightarrow>
          x \<noteq> t @ ''-'' @ d1 @ ''x'' @ d2) \<longrightarrow> getSeriesIdFromEpisodeId x = x)"
proof (intro conjI impI)
  show "getSeriesIdFromEpisodeId x = x"
    if "\<forall>t d1 d2. d1 \<noteq> [] \<and> list_all is_digit d1 \<and> d2 \<noteq> [] \<and> list_all is_digit d2 \<longrightarrow>
          x \<noteq> t @ ''-'' @ d1 @ ''x'' @ d2"
    using that by (rule getSeriesIdFromEpisodeId_unchanged)
  show "getSeriesIdFromEpisodeId (slug @ ''-'' @ s @ ''x'' @ e) = slug"
    if "slug \<noteq> [] \<and> \<not> list_ex is_line_terminator slug \<and>
        s \<noteq> [] \<and> list_all is_digit s \<and> e \<noteq> [] \<and> list_all is_digit e"
    using that by (intro getSeriesIdFromEpisodeId_strip) simp_all
qed (simp_all add: extractFromUrl_def fetchAndExtract_def attempt_def Let_def)

lemma example_series_id: "getSeriesIdFromEpisodeId ''spy-x-family-3x1'' = ''spy-x-family''"
  by (simp add: getSeriesIdFromEpisodeId_def match_suffix_def is_line_terminator_def is_digit_def Let_def)

lemma example_attempt:
  "attempt (example_env pages api race) u () =
     (case pages u of Inl e \<Rightarrow> Inl e | Inr html \<Rightarrow> extract_html (example_env pages api race) html u, ())"
  by (simp add: attempt_def example_env_sel split: sum.splits)

theorem extractFromUrl_fallback_order_witness:
  "is404 not_found \<and>
   getSeriesIdFromEpisodeId ''spy-x-family-3x1'' = ''spy-x-family'' \<and>
   getSeriesIdFromEpisodeId ''one-piece'' = ''one-piece'' \<and>
   extractFromUrl (example_env (only_page ''https://watchanimeworld.in/series/spy-x-family/'' ''<options>'') no_api None)
     ''spy-x-family-3x1'' ((), []) =
     (Inr (\<lparr>embed_id = ''spy-x-family-3x1'',
            servers = [\<lparr>server = Num 0, name = ''Server 0'', url = ''https://play.example/e/0''\<rparr>,
                       \<lparr>server = Num 2, name = ''Play'', url = ''https://play.example/e/2''\<rparr>],
            externalApiMapping = None\<rparr> :: unit embed_data),
      ((), [''https://watchanimeworld.in/episode/spy-x-family-3x1/'',
            ''https://watchanimeworld.in/series/spy-x-family/''])) \<and>
   extractFromUrl (example_env (only_page ''https://watchanimeworld.in/movies/spy-x-family/'' ''<options>'') no_api None)
     ''spy-x-family-3x1'' ((), []) =
     (Inr (\<lparr>embed_id = ''spy-x-family-3x1'',
            servers = [\<lparr>server = Num 0, name = ''Server 0'', url = ''https://play.example/e/0''\<rparr>,
                       \<lparr>server = Num 2, name = ''Play'', url = ''https://play.example/e/2''\<rparr>],
            externalApiMapping = None\<rparr> :: unit embed_data),
      ((), [''https://watchanimeworld.in/episode/spy-x-family-3x1/'',
            ''https://watchanimeworld.in/series/spy-x-family/'',
            ''https://watchanimeworld.in/movies/spy-x-family/''])) \<and>
   extractFromUrl
     (example_env (two_pages ''https://watchanimeworld.in/series/spy-x-family/'' ''<quoted>''
                             ''https://watchanimeworld.in/movies/spy-x-family/'' ''<options>'') no_api None)
     ''spy-x-family-3x1'' ((), []) =
     (Inr (\<lparr>embed_id = ''spy-x-family-3x1'',
            servers = [\<lparr>server = Num 0, name = ''Server 0'', url = ''https://play.example/e/0''\<rparr>,
                       \<lparr>server = Num 2, name = ''Play'', url = ''https://play.example/e/2''\<rparr>],
            externalApiMapping = None\<rparr> :: unit embed_data),
      ((), [''https://watchanimeworld.in/episode/spy-x-family-3x1/'',
            ''https://watchanimeworld.in/series/spy-x-family/'',
            ''https://watchanimeworld.in/movies/spy-x-family/''])) \<and>
   extractFromUrl (example_env (failing_pages not_found) no_api None) ''spy-x-family-3x1'' ((), []) =
     (Inl not_found :: js_error + unit embed_data,
      ((), [''https://watchanimeworld.in/episode/spy-x-family-3x1/'',
            ''https://watchanimeworld.in/series/spy-x-family/'',
            ''https://watchanimeworld.in/movies/spy-x-family/'']))"
proof -
  let ?env = "example_env (only_page ''https://watchanimeworld.in/series/spy-x-family/'' ''<options>'') no_api None"
  let ?env2 = "example_env (only_page ''https://watchanimeworld.in/movies/spy-x-family/'' ''<options>'') no_api None"
  let ?env3 = "example_env (failing_pages not_found) no_api None"
  let ?env4 = "example_env (two_pages ''https://watchanimeworld.in/series/spy-x-family/'' ''<quoted>''
                             ''https://watchanimeworld.in/movies/spy-x-family/'' ''<options>'') no_api None"
  let ?i = "''spy-x-family-3x1''"
  let ?data = "\<lparr>embed_id = [],
            servers = [\<lparr>server = Num 0, name = ''Server 0'', url = ''https://play.example/e/0''\<rparr>,
                       \<lparr>server = Num 2, name = ''Play'', url = ''https://play.example/e/2''\<rparr>],
            externalApiMapping = None\<rparr> :: unit embed_data"
  note g = example_series_id
  have h2: "is404 not_found"
    by (simp add: is404_def not_found_def)
  have n: "\<forall>t d1 d2. d1 \<noteq> [] \<and> list_all is_digit d1 \<and> d2 \<noteq> [] \<and> list_all is_digit d2 \<longrightarrow>
      ''one-piece'' \<noteq> t @ ''-'' @ d1 @ ''x'' @ d2"
  proof (intro allI impI notI)
    fix t d1 d2 :: string
    assume "''one-piece'' = t @ ''-'' @ d1 @ ''x'' @ d2"
    then have "set ''one-piece'' = set (t @ ''-'' @ d1 @ ''x'' @ d2)" by simp
    then have "CHR ''x'' \<in> set ''one-piece''" by simp
    then show False by simp
  qed
  note ord = extractFromUrl_fallback_order
  note ev = example_attempt example_env_sel only_page_def two_pages_def failing_pages_def
    example_extract example_extract_quoted g h2
  from ord [where x = "''one-piece''", THEN conjunct2, THEN conjunct2, THEN conjunct2,
      THEN conjunct2, THEN conjunct2, THEN conjunct2, THEN mp, OF n]
  have c0: "getSeriesIdFromEpisodeId ''one-piece'' = ''one-piece''" .
  have c1: "extractFromUrl ?env ?i ((), []) =
        (Inr (?data\<lparr>embed_id := ?i\<rparr>),
         ((), [] @ [baseUrl ?env @ ''/episode/'' @ ?i @ ''/'',
                    baseUrl ?env @ ''/series/'' @ getSeriesIdFromEpisodeId ?i @ ''/'']))"
    by (rule ord [where env = ?env and i = ?i and w = "()" and error = not_found and ?w1.0 = "()"
          and data = ?data and ?w2.0 = "()" and reqs = "[]", THEN conjunct1, THEN mp])
      (simp add: ev)
  have c2: "extractFromUrl ?env2 ?i ((), []) =
        (Inr (?data\<lparr>embed_id := ?i\<rparr>),
         ((), [] @ [baseUrl ?env2 @ ''/episode/'' @ ?i @ ''/'',
                    baseUrl ?env2 @ ''/series/'' @ getSeriesIdFromEpisodeId ?i @ ''/'',
                    baseUrl ?env2 @ ''/movies/'' @ getSeriesIdFromEpisodeId ?i @ ''/'']))"
    by (rule ord [where env = ?env2 and i = ?i and w = "()" and error = not_found and ?w1.0 = "()"
          and ?error2.0 = not_found and ?w2.0 = "()" and data = ?data and ?w3.0 = "()"
          and reqs = "[]", THEN conjunct2, THEN conjunct1, THEN mp])
      (simp add: ev)
  have c4: "extractFromUrl ?env4 ?i ((), []) =
        (Inr (?data\<lparr>embed_id := ?i\<rparr>),
         ((), [] @ [baseUrl ?env4 @ ''/episode/'' @ ?i @ ''/'',
                    baseUrl ?env4 @ ''/series/'' @ getSeriesIdFromEpisodeId ?i @ ''/'',
                    baseUrl ?env4 @ ''/movies/'' @ getSeriesIdFromEpisodeId ?i @ ''/'']))"
    by (rule ord [where env = ?env4 and i = ?i and w = "()" and error = not_found and ?w1.0 = "()"
          and ?error2.0 = selector_error and ?w2.0 = "()" and data = ?data and ?w3.0 = "()"
          and reqs = "[]", THEN conjunct2, THEN conjunct1, THEN mp])
      (simp add: ev)
  have c3: "extractFromUrl ?env3 ?i ((), []) =
        (Inl not_found :: js_error + unit embed_data,
         ((), [] @ [baseUrl ?env3 @ ''/episode/'' @ ?i @ ''/'',
                    baseUrl ?env3 @ ''/series/'' @ getSeriesIdFromEpisodeId ?i @ ''/'',
                    baseUrl ?env3 @ ''/movies/'' @ getSeriesIdFromEpisodeId ?i @ ''/'']))"
    by (rule ord [where env = ?env3 and i = ?i and w = "()" and error = not_found and ?w1.0 = "()"
          and ?error2.0 = not_found and ?w2.0 = "()" and ?error3.0 = not_found and ?w3.0 = "()"
          and reqs = "[]", THEN conjunct2, THEN conjunct2, THEN conjunct1, THEN mp])
      (simp add: ev)
  from c0 c1 c2 c3 c4 g h2 show ?thesis
    by (simp add: example_env_sel)
qed

section \<open>Properties of the mapping merger and of the metadata layer\<close>

lemma searchAnimeInExternalApi_Inr: "\<exists>r s'. searchAnimeInExternalApi env t s = (Inr r, s')"
  by (auto simp: searchAnimeInExternalApi_def split: prod.splits sum.splits api_response.splits list.splits)

lemma getAnimeIdFromExternalApi_Inr: "\<exists>r s'. getAnimeIdFromExternalApi env episodeId s = (Inr r, s')"
  by (auto simp: getAnimeIdFromExternalApi_def
      split: prod.splits sum.splits option.splits js_item.splits)

lemma try_detail_urls_Inr:
  "try_detail_urls env i urls l s = (Inr d, s') \<Longrightarrow> embed_id d = i \<and> externalApiMapping d = None"
proof (induction urls arbitrary: l s)
  case Nil
  then show ?case by simp
next
  case (Cons u urls)
  then show ?case
    by (auto simp: fetchAndExtract_def attempt_def split: prod.splits sum.splits
        dest: extract_html_Inr)
qed

lemma extractFromUrl_Inr:
  "extractFromUrl env i s = (Inr d, s') \<Longrightarrow> embed_id d = i \<and> externalApiMapping d = None"
  unfolding extractFromUrl_def Let_def
  by (auto simp: fetchAndExtract_def attempt_def
      split: prod.splits sum.splits if_splits option.splits
      dest: try_detail_urls_Inr extract_html_Inr)

text \<open>
  C3. \<open>getEmbedWithMapping\<close> retrieves by the original \<open>episodeId\<close> in both branches.
  The external resolution never fails; when it yields nothing, the result is that of
  \<open>extractFromUrl\<close> on the \<open>episodeId\<close>, whose id is the \<open>episodeId\<close> and which carries no
  mapping; when it yields a match, the servers are still those \<open>extractFromUrl\<close> finds
  for the \<open>episodeId\<close>, returned with the id \<open>episodeId\<close> and the match's animeId, dataId,
  title, season and episode attached. An error of the retrieval is passed on.
\<close>

theorem getEmbedWithMapping_original_id:
  "(\<exists>r s1. getAnimeIdFromExternalApi env episodeId s = (Inr r, s1)) \<and>
   (getAnimeIdFromExternalApi env episodeId s = (Inr None, s1) \<longrightarrow>
      getEmbedWithMapping env episodeId s = extractFromUrl env episodeId s1) \<and>
   (extractFromUrl env episodeId s1 = (Inr direct, s2) \<longrightarrow>
      embed_id direct = episodeId \<and> externalApiMapping direct = (None :: api_mapping option)) \<and>
   (getAnimeIdFromExternalApi env episodeId s = (Inr (Some mappedData), s1) \<and>
    extractFromUrl env episodeId s1 = (Inr (embedData :: unit embed_data), s2) \<longrightarrow>
      getEmbedWithMapping env episodeId s =
        (Inr \<lparr>embed_id = episodeId,
              servers = servers embedData,
              externalApiMapping =
                Some \<lparr>animeId = externalApiId mappedData,
                      map_dataId = mapped_dataId mappedData,
                      map_title = originalTitle mappedData,
                      map_season = mapped_season mappedData,
                      map_episode = mapped_episode mappedData\<rparr>\<rparr>, s2)) \<and>
   (getAnimeIdFromExternalApi env episodeId s = (Inr (Some mappedData), s1) \<and>
    extractFromUrl env episodeId s1 = (Inl error :: js_error + unit embed_data, s2) \<longrightarrow>
      getEmbedWithMapping env episodeId s = (Inl error, s2))"
  using getAnimeIdFromExternalApi_Inr [of env episodeId s]
  by (auto simp: getEmbedWithMapping_def dest: extractFromUrl_Inr)

lemma example_direct:
  "extractFromUrl (example_env (only_page ''https://watchanimeworld.in/episode/spy-x-family-3x1/'' ''<options>'') api race)
     ''spy-x-family-3x1'' ((), reqs) =
   (Inr \<lparr>embed_id = ''spy-x-family-3x1'',
         servers = [\<lparr>server = Num 0, name = ''Server 0'', url = ''https://play.example/e/0''\<rparr>,
                    \<lparr>server = Num 2, name = ''Play'', url = ''https://play.example/e/2''\<rparr>],
         externalApiMapping = None\<rparr>,
    ((), reqs @ [''https://watchanimeworld.in/episode/spy-x-family-3x1/'']))"
  by (simp add: extractFromUrl_def fetchAndExtract_def example_attempt example_env_sel only_page_def
      example_extract)

theorem getEmbedWithMapping_original_id_witness:
  "getAnimeIdFromExternalApi
     (example_env (only_page ''https://watchanimeworld.in/episode/spy-x-family-3x1/'' ''<options>'') no_api None)
     ''spy-x-family-3x1'' ((), []) = (Inr None, ((), [api_url])) \<and>
   getEmbedWithMapping
     (example_env (only_page ''https://watchanimeworld.in/episode/spy-x-family-3x1/'' ''<options>'') no_api None)
     ''spy-x-family-3x1'' ((), []) =
     (Inr \<lparr>embed_id = ''spy-x-family-3x1'',
           servers = [\<lparr>server = Num 0, name = ''Server 0'', url = ''https://play.example/e/0''\<rparr>,
                      \<lparr>server = Num 2, name = ''Play'', url = ''https://play.example/e/2''\<rparr>],
           externalApiMapping = None\<rparr>,
      ((), [api_url, ''https://watchanimeworld.in/episode/spy-x-family-3x1/''])) \<and>
   getAnimeIdFromExternalApi
     (example_env (only_page ''https://watchanimeworld.in/episode/spy-x-family-3x1/'' ''<options>'') spy_api None)
     ''spy-x-family-3x1'' ((), []) =
     (Inr (Some \<lparr>externalApiId = ''spy-x-family-12345'', mapped_dataId = Some ''12345'',
                  mapped_episodeId = ''spy-x-family-3x1'', mapped_season = Num 3,
                  mapped_episode = Num 1, originalTitle = ''Spy x Family''\<rparr>), ((), [api_url])) \<and>
   getEmbedWithMapping
     (example_env (only_page ''https://watchanimeworld.in/episode/spy-x-family-3x1/'' ''<options>'') spy_api None)
     ''spy-x-family-3x1'' ((), []) =
     (Inr \<lparr>embed_id = ''spy-x-family-3x1'',
           servers = [\<lparr>server = Num 0, name = ''Server 0'', url = ''https://play.example/e/0''\<rparr>,
                      \<lparr>server = Num 2, name = ''Play'', url = ''https://play.example/e/2''\<rparr>],
           externalApiMapping =
             Some \<lparr>animeId = ''spy-x-family-12345'', map_dataId = Some ''12345'',
                   map_title = ''Spy x Family'', map_season = Num 3, map_episode = Num 1\<rparr>\<rparr>,
      ((), [api_url, ''https://watchanimeworld.in/episode/spy-x-family-3x1/'']))"
proof -
  let ?pages = "only_page ''https://watchanimeworld.in/episode/spy-x-family-3x1/'' ''<options>''"
  let ?i = "''spy-x-family-3x1''"
  let ?m = "\<lparr>externalApiId = ''spy-x-family-12345'', mapped_dataId = Some ''12345'',
             mapped_episodeId = ''spy-x-family-3x1'', mapped_season = Num 3,
             mapped_episode = Num 1, originalTitle = ''Spy x Family''\<rparr>"
  have a1: "getAnimeIdFromExternalApi (example_env ?pages no_api None) ?i ((), []) =
      (Inr None, ((), [api_url]))"
    by (simp add: getAnimeIdFromExternalApi_def example_parse searchAnimeInExternalApi_def
        httpGetApi_def example_env_sel no_api_def)
  have a2: "getAnimeIdFromExternalApi (example_env ?pages spy_api None) ?i ((), []) =
      (Inr (Some ?m), ((), [api_url]))"
    by (simp add: getAnimeIdFromExternalApi_def example_parse searchAnimeInExternalApi_def
        httpGetApi_def example_env_sel spy_api_def truthy_def or_else_def)
  from getEmbedWithMapping_original_id [of "example_env ?pages no_api None" ?i "((), [])" "((), [api_url])"] a1
  have b1: "getEmbedWithMapping (example_env ?pages no_api None) ?i ((), []) =
      extractFromUrl (example_env ?pages no_api None) ?i ((), [api_url])"
    by blast
  have d: "extractFromUrl (example_env ?pages spy_api None) ?i ((), [api_url]) =
     (Inr (\<lparr>embed_id = ?i,
           servers = [\<lparr>server = Num 0, name = ''Server 0'', url = ''https://play.example/e/0''\<rparr>,
                      \<lparr>server = Num 2, name = ''Play'', url = ''https://play.example/e/2''\<rparr>],
           externalApiMapping = None\<rparr> :: unit embed_data),
      ((), [api_url] @ [''https://watchanimeworld.in/episode/spy-x-family-3x1/'']))"
    by (rule example_direct)
  from getEmbedWithMapping_original_id [of "example_env ?pages spy_api None" ?i "((), [])"
      "((), [api_url])" _ _ ?m] a2 d
  have b2: "getEmbedWithMapping (example_env ?pages spy_api None) ?i ((), []) =
     (Inr \<lparr>embed_id = ?i,
           servers = [\<lparr>server = Num 0, name = ''Server 0'', url = ''https://play.example/e/0''\<rparr>,
                      \<lparr>server = Num 2, name = ''Play'', url = ''https://play.example/e/2''\<rparr>],
           externalApiMapping =
             Some \<lparr>animeId = ''spy-x-family-12345'', map_dataId = Some ''12345'',
                   map_title = ''Spy x Family'', map_season = Num 3, map_episode = Num 1\<rparr>\<rparr>,
      ((), [api_url, ''https://watchanimeworld.in/episode/spy-x-family-3x1/'']))"
    by simp
  from a1 a2 b1 b2 show ?thesis by (simp add: example_direct)
qed

lemma metadata_errors_swallowed:
  "(\<exists>r s'. searchAnimeInExternalApi env t s = (Inr r, s')) \<and>
   (httpGetApi env (Query_q t) s = (Inr (Records (a # rs)), s') \<longrightarrow>
      searchAnimeInExternalApi env t s = (Inr (Some (Item a)), s')) \<and>
   (httpGetApi env (Query_q t) s = (Inr (Records []), s') \<or>
    httpGetApi env (Query_q t) s = (Inr Falsy, s') \<or>
    httpGetApi env (Query_q t) s = (Inr (Text []), s') \<or>
    httpGetApi env (Query_q t) s = (Inr Other, s') \<or>
    httpGetApi env (Query_q t) s = (Inl error, s') \<longrightarrow>
      searchAnimeInExternalApi env t s = (Inr None, s')) \<and>
   (httpGetApiRace env 5000 s = (None, s') \<or>
    httpGetApiRace env 5000 s = (Some (Inl error), s') \<longrightarrow>
      fetchAnimeTitle env dataId s = (None, s') \<and>
      seriesPatterns None dataId = constructCommonSeriesIds dataId \<and>
      getEmbedByDataIdAndEpisode env dataId se ep s = fetchByPatterns env None dataId se ep s')"
  using searchAnimeInExternalApi_Inr [of env t s]
  by (auto simp: searchAnimeInExternalApi_def fetchAnimeTitle_def getEmbedByDataIdAndEpisode_def
      seriesPatterns_def)

text \<open>
  C4. The claim holds of rejected requests, of timeouts and of empty responses
  (\<open>metadata_errors_swallowed\<close>), but \<open>searchAnimeInExternalApi\<close> does not return \<open>null\<close> on
  every response that is not a non-empty array: its test is
  \<open>response && response.length > 0\<close>, without the \<open>Array.isArray\<close> of the listing request, so
  that on a response that is a non-empty string it returns the first character.
\<close>

theorem searchAnimeInExternalApi_text_body:
  "httpGetApi (example_env (failing_pages not_found) text_api None) (Query_q ''spy-x-family'') ((), []) =
     (Inr (Text ''Too Many Requests''), ((), [api_url])) \<and>
   searchAnimeInExternalApi (example_env (failing_pages not_found) text_api None) ''spy-x-family'' ((), []) =
     (Inr (Some (Str ''T'')), ((), [api_url])) \<and>
   Some (Str ''T'') \<noteq> None"
  by (simp add: searchAnimeInExternalApi_def httpGetApi_def example_env_sel text_api_def)

section \<open>Properties of the candidate loop\<close>

lemma try_urls_append:
  "try_urls env mk (xs @ ys) s =
     (case try_urls env mk xs s of
        (Some d, s') \<Rightarrow> (Some d, s')
      | (None, s') \<Rightarrow> try_urls env mk ys s')"
  by (induction xs arbitrary: s) (auto split: prod.splits sum.splits option.splits)

lemma try_series_flat: "try_series env mk ps s = try_urls env mk (detail_urls env ps) s"
proof (induction ps arbitrary: s)
  case Nil
  then show ?case by (simp add: detail_urls_def)
next
  case (Cons p ps)
  have "detail_urls env (p # ps) =
      [baseUrl env @ ''/series/'' @ p @ ''/'', baseUrl env @ ''/movies/'' @ p @ ''/''] @ detail_urls env ps"
    by (simp add: detail_urls_def)
  then show ?case
    using Cons.IH by (simp only: try_series.simps try_urls_append split: prod.splits option.splits)
qed

lemma try_urls_None:
  "try_urls env mk urls (w, reqs) = (None, (w', reqs')) \<Longrightarrow> reqs' = reqs @ urls"
proof (induction urls arbitrary: w reqs)
  case Nil
  then show ?case by simp
next
  case (Cons u urls)
  obtain r w1 where g: "attempt env u w = (r :: js_error + unit embed_data, w1)"
    by (cases "attempt env u w :: (js_error + unit embed_data) \<times> _")
  with Cons.prems obtain e where "r = Inl e"
    and "try_urls env mk urls (w1, reqs @ [u]) = (None, (w', reqs'))"
    by (cases r) (auto simp: fetchAndExtract_def)
  from Cons.IH [OF this(2)] show ?case by simp
qed

lemma try_urls_Some:
  "try_urls env mk urls (w, reqs) = (Some d, (w', reqs')) \<Longrightarrow>
   \<exists>k data wk. k < length urls \<and> reqs' = reqs @ take (Suc k) urls \<and>
      attempt env (urls ! k) wk = (Inr data, w') \<and> d = mk data"
proof (induction urls arbitrary: w reqs)
  case Nil
  then show ?case by simp
next
  case (Cons u urls)
  obtain r w1 where g: "attempt env u w = (r :: js_error + unit embed_data, w1)"
    by (cases "attempt env u w :: (js_error + unit embed_data) \<times> _")
  show ?case
  proof (cases r)
    case (Inr data)
    with g Cons.prems have "reqs' = reqs @ [u]" "d = mk data" "w1 = w'"
      by (auto simp: fetchAndExtract_def)
    with g Inr show ?thesis
      by (intro exI [of _ 0] exI [of _ data] exI [of _ w]) auto
  next
    case (Inl e)
    with g Cons.prems have "try_urls env mk urls (w1, reqs @ [u]) = (Some d, (w', reqs'))"
      by (auto simp: fetchAndExtract_def)
    from Cons.IH [OF this] obtain k data wk where "k < length urls"
      "reqs' = (reqs @ [u]) @ take (Suc k) urls" "attempt env (urls ! k) wk = (Inr data, w')"
      "d = mk data" by blast
    then show ?thesis
      by (intro exI [of _ "Suc k"] exI [of _ data] exI [of _ wk]) auto
  qed
qed

lemma fetchByPatterns_flat:
  "fetchByPatterns env rt dataId se ep s1 =
     (case try_urls env (episode_data env rt dataId se ep) (attempt_urls env rt dataId se ep) s1 of
        (Some d, s2) \<Rightarrow> (Inr d, s2)
      | (None, s2) \<Rightarrow> (Inl (Error (''Could not find any page for data_id: '' @ dataId)), s2))"
  by (simp add: fetchByPatterns_def attempt_urls_def try_series_flat Let_def
      split: prod.splits sum.splits option.splits)

text \<open>
  C2 (as amended). In \<open>getEmbedByDataIdAndEpisode\<close>, when no title is resolved the
  candidates are the fixed list of popular slugs. The composite identifier
  \<open><slug>-<season>x<episode>\<close> is built from the first of them only, and its episode page
  is attempted once; when that attempt fails, the series page and then the movie page
  of every candidate are attempted in the order of the list. An attempt is the request
  for the page followed by \<open>extract\<close>, and fails when either does. The result of the
  first attempt that succeeds is returned, and the method fails, with
  \<open>Could not find any page\<close>, only after the episode page and the series and movie page
  of every candidate have been requested and their attempts have failed.
\<close>

theorem getEmbedByDataIdAndEpisode_candidates:
  "(fetchAnimeTitle env dataId s = (None, s1) \<longrightarrow>
      getEmbedByDataIdAndEpisode env dataId se ep s =
        (case try_urls env (episode_data env None dataId se ep) (attempt_urls env None dataId se ep) s1 of
           (Some d, s2) \<Rightarrow> (Inr d, s2)
         | (None, s2) \<Rightarrow> (Inl (Error (''Could not find any page for data_id: '' @ dataId)), s2))) \<and>
   attempt_urls env None dataId se ep =
     (baseUrl env @ ''/episode/'' @ ''one-punch-man'' @ ''-'' @ number_to_string (large_number env) se
        @ ''x'' @ number_to_string (large_number env) ep @ ''/'')
       # detail_urls env (constructCommonSeriesIds dataId) \<and>
   detail_urls env (p # ps) =
     (baseUrl env @ ''/series/'' @ p @ ''/'') # (baseUrl env @ ''/movies/'' @ p @ ''/'') # detail_urls env ps \<and>
   (try_urls env mk urls (w, reqs) = (None, (w', reqs')) \<longrightarrow> reqs' = reqs @ urls) \<and>
   (try_urls env mk urls (w, reqs) = (Some d, (w', reqs')) \<longrightarrow>
      (\<exists>k data wk. k < length urls \<and> reqs' = reqs @ take (Suc k) urls \<and>
          attempt env (urls ! k) wk = (Inr data, w') \<and> d = mk data)) \<and>
   (attempt env u0 w0 = (Inl error0 :: js_error + unit embed_data, w0') \<longrightarrow>
      try_urls env mk (u0 # urls) (w0, reqs) = try_urls env mk urls (w0', reqs @ [u0])) \<and>
   (attempt env u0 w0 = (Inr data0, w0') \<longrightarrow>
      try_urls env mk (u0 # urls) (w0, reqs) = (Some (mk data0), (w0', reqs @ [u0]))) \<and>
   (http_get_page env pu pw = (Inl perror, pw') \<longrightarrow>
      attempt env pu pw = (Inl perror :: js_error + unit embed_data, pw')) \<and>
   (http_get_page env pu pw = (Inr phtml, pw') \<longrightarrow>
      attempt env pu pw = (extract_html env phtml pu :: js_error + unit embed_data, pw'))"
proof (intro conjI impI)
  show "getEmbedByDataIdAndEpisode env dataId se ep s =
        (case try_urls env (episode_data env None dataId se ep) (attempt_urls env None dataId se ep) s1 of
           (Some d, s2) \<Rightarrow> (Inr d, s2)
         | (None, s2) \<Rightarrow> (Inl (Error (''Could not find any page for data_id: '' @ dataId)), s2))"
    if "fetchAnimeTitle env dataId s = (None, s1)"
    using that by (simp add: getEmbedByDataIdAndEpisode_def fetchByPatterns_flat)
  show "attempt_urls env None dataId se ep =
     (baseUrl env @ ''/episode/'' @ ''one-punch-man'' @ ''-'' @ number_to_string (large_number env) se
        @ ''x'' @ number_to_string (large_number env) ep @ ''/'')
       # detail_urls env (constructCommonSeriesIds dataId)"
    by (simp add: attempt_urls_def constructedEpisodeId_def seriesPatterns_def
        constructCommonSeriesIds_def first_pattern_def buildComposite_def)
  show "detail_urls env (p # ps) =
     (baseUrl env @ ''/series/'' @ p @ ''/'') # (baseUrl env @ ''/movies/'' @ p @ ''/'') # detail_urls env ps"
    by (simp add: detail_urls_def)
  show "reqs' = reqs @ urls" if "try_urls env mk urls (w, reqs) = (None, (w', reqs'))"
    using that by (rule try_urls_None)
  show "\<exists>k data wk. k < length urls \<and> reqs' = reqs @ take (Suc k) urls \<and>
          attempt env (urls ! k) wk = (Inr data, w') \<and> d = mk data"
    if "try_urls env mk urls (w, reqs) = (Some d, (w', reqs'))"
    using that by (rule try_urls_Some)
qed (simp_all add: fetchAndExtract_def attempt_def)

lemma example_no_title:
  "fetchAnimeTitle (example_env pages api None) dataId ((), []) = (None, ((), [api_url]))"
  by (simp add: fetchAnimeTitle_def httpGetApiRace_def example_env_sel)

lemma example_attempt_urls: "attempt_urls (example_env pages api race) None ''20333'' (Num 2) (Num 7) =
  [''https://watchanimeworld.in/episode/one-punch-man-2x7/'',
            ''https://watchanimeworld.in/series/one-punch-man/'',
            ''https://watchanimeworld.in/movies/one-punch-man/'',
            ''https://watchanimeworld.in/series/one-piece/'',
            ''https://watchanimeworld.in/movies/one-piece/'',
            ''https://watchanimeworld.in/series/naruto/'',
            ''https://watchanimeworld.in/movies/naruto/'',
            ''https://watchanimeworld.in/series/bleach/'',
            ''https://watchanimeworld.in/movies/bleach/'',
            ''https://watchanimeworld.in/series/demon-slayer/'',
            ''https://watchanimeworld.in/movies/demon-slayer/'',
            ''https://watchanimeworld.in/series/jujutsu-kaisen/'',
            ''https://watchanimeworld.in/movies/jujutsu-kaisen/'',
            ''https://watchanimeworld.in/series/attack-on-titan/'',
            ''https://watchanimeworld.in/movies/attack-on-titan/'',
            ''https://watchanimeworld.in/series/my-hero-academia/'',
            ''https://watchanimeworld.in/movies/my-hero-academia/'',
            ''https://watchanimeworld.in/series/dragon-ball-super/'',
            ''https://watchanimeworld.in/movies/dragon-ball-super/'',
            ''https://watchanimeworld.in/series/spy-x-family/'',
            ''https://watchanimeworld.in/movies/spy-x-family/'',
            ''https://watchanimeworld.in/series/fire-force/'',
            ''https://watchanimeworld.in/movies/fire-force/'',
            ''https://watchanimeworld.in/series/chainsaw-man/'',
            ''https://watchanimeworld.in/movies/chainsaw-man/'',
            ''https://watchanimeworld.in/series/hunter-x-hunter/'',
            ''https://watchanimeworld.in/movies/hunter-x-hunter/'',
            ''https://watchanimeworld.in/series/solo-leveling/'',
            ''https://watchanimeworld.in/movies/solo-leveling/'']"
  by (simp add: attempt_urls_def detail_urls_def example_env_sel seriesPatterns_def
      constructCommonSeriesIds_def constructedEpisodeId_def first_pattern_def buildComposite_def
      number_to_string_def dec_string.simps char_of_eq_iff)

lemma try_urls_two_pages_miss:
  "u \<noteq> url1 \<Longrightarrow> u \<noteq> url2 \<Longrightarrow>
   try_urls (example_env (two_pages url1 html1 url2 html2) api race) mk (u # urls) ((), reqs) =
   try_urls (example_env (two_pages url1 html1 url2 html2) api race) mk urls ((), reqs @ [u])"
  by (simp add: fetchAndExtract_def example_attempt two_pages_def)

lemma try_urls_two_pages_quoted:
  "try_urls (example_env (two_pages url1 ''<quoted>'' url2 html2) api race) mk (url1 # urls) ((), reqs) =
   try_urls (example_env (two_pages url1 ''<quoted>'' url2 html2) api race) mk urls ((), reqs @ [url1])"
  by (simp add: fetchAndExtract_def example_attempt two_pages_def example_extract_quoted)

lemma try_urls_two_pages_options:
  "u \<noteq> url1 \<Longrightarrow>
   try_urls (example_env (two_pages url1 html1 u ''<options>'') api race) mk (u # urls) ((), reqs) =
   (Some (mk \<lparr>embed_id = [],
              servers = [\<lparr>server = Num 0, name = ''Server 0'', url = ''https://play.example/e/0''\<rparr>,
                         \<lparr>server = Num 2, name = ''Play'', url = ''https://play.example/e/2''\<rparr>],
              externalApiMapping = None\<rparr>), ((), reqs @ [u]))"
  by (simp add: fetchAndExtract_def example_attempt two_pages_def example_extract)

lemma try_urls_only_page_miss:
  "u \<noteq> page_url \<Longrightarrow>
   try_urls (example_env (only_page page_url html) api race) mk (u # urls) ((), reqs) =
   try_urls (example_env (only_page page_url html) api race) mk urls ((), reqs @ [u])"
  by (simp add: fetchAndExtract_def example_attempt only_page_def)

lemma example_episode_data:
  "episode_data (example_env pages api race) None ''20333'' (Num 2) (Num 7)
     \<lparr>embed_id = [],
      servers = [\<lparr>server = Num 0, name = ''Server 0'', url = ''https://play.example/e/0''\<rparr>,
                 \<lparr>server = Num 2, name = ''Play'', url = ''https://play.example/e/2''\<rparr>],
      externalApiMapping = None\<rparr> =
     \<lparr>embed_id = ''20333/2/7'',
      servers = [\<lparr>server = Num 0, name = ''Server 0'', url = ''https://play.example/e/0''\<rparr>,
                 \<lparr>server = Num 2, name = ''Play'', url = ''https://play.example/e/2''\<rparr>],
      externalApiMapping =
        Some \<lparr>ep_dataId = ''20333'', ep_season = Num 2, ep_episode = Num 7,
              ep_title = ''Unknown'', constructedId = ''one-punch-man-2x7''\<rparr>\<rparr>"
  by (simp add: episode_data_def example_env_sel or_else_def
      constructedEpisodeId_def seriesPatterns_def constructCommonSeriesIds_def first_pattern_def
      buildComposite_def number_to_string_def dec_string.simps char_of_eq_iff)

theorem getEmbedByDataIdAndEpisode_candidates_witness:
  "fetchAnimeTitle
     (example_env (two_pages ''https://watchanimeworld.in/series/naruto/'' ''<quoted>''
                             ''https://watchanimeworld.in/movies/naruto/'' ''<options>'') no_api None)
     ''20333'' ((), []) = (None, ((), [api_url])) \<and>
   getEmbedByDataIdAndEpisode
     (example_env (two_pages ''https://watchanimeworld.in/series/naruto/'' ''<quoted>''
                             ''https://watchanimeworld.in/movies/naruto/'' ''<options>'') no_api None)
     ''20333'' (Num 2) (Num 7) ((), []) =
     (Inr \<lparr>embed_id = ''20333/2/7'',
           servers = [\<lparr>server = Num 0, name = ''Server 0'', url = ''https://play.example/e/0''\<rparr>,
                      \<lparr>server = Num 2, name = ''Play'', url = ''https://play.example/e/2''\<rparr>],
           externalApiMapping =
             Some \<lparr>ep_dataId = ''20333'', ep_season = Num 2, ep_episode = Num 7,
                   ep_title = ''Unknown'', constructedId = ''one-punch-man-2x7''\<rparr>\<rparr>,
      ((), [api_url,
            ''https://watchanimeworld.in/episode/one-punch-man-2x7/'',
            ''https://watchanimeworld.in/series/one-punch-man/'',
            ''https://watchanimeworld.in/movies/one-punch-man/'',
            ''https://watchanimeworld.in/series/one-piece/'',
            ''https://watchanimeworld.in/movies/one-piece/'',
            ''https://watchanimeworld.in/series/naruto/'',
            ''https://watchanimeworld.in/movies/naruto/'']))"
proof -
  let ?env = "example_env (two_pages ''https://watchanimeworld.in/series/naruto/'' ''<quoted>''
                             ''https://watchanimeworld.in/movies/naruto/'' ''<options>'') no_api None"
  have h: "fetchAnimeTitle ?env ''20333'' ((), []) = (None, ((), [api_url]))"
    by (rule example_no_title)
  from getEmbedByDataIdAndEpisode_candidates [where env = ?env and dataId = "''20333''" and s = "((), [])"
      and ?s1.0 = "((), [api_url])" and se = "Num 2" and ep = "Num 7", THEN conjunct1, THEN mp, OF h]
  have "getEmbedByDataIdAndEpisode ?env ''20333'' (Num 2) (Num 7) ((), []) =
        (case try_urls ?env (episode_data ?env None ''20333'' (Num 2) (Num 7))
                (attempt_urls ?env None ''20333'' (Num 2) (Num 7)) ((), [api_url]) of
           (Some d, s2) \<Rightarrow> (Inr d, s2)
         | (None, s2) \<Rightarrow> (Inl (Error (''Could not find any page for data_id: '' @ ''20333'')), s2))" .
  with h show ?thesis
    by (simp add: example_attempt_urls try_urls_two_pages_miss try_urls_two_pages_quoted
        try_urls_two_pages_options example_episode_data del: try_urls.simps(2))
qed

theorem getEmbedByDataIdAndEpisode_candidates_counterexample:
  "fetchAnimeTitle
     (example_env (only_page ''https://watchanimeworld.in/episode/naruto-2x7/'' ''<options>'') no_api None)
     ''20333'' ((), []) = (None, ((), [api_url])) \<and>
   constructCommonSeriesIds ''20333'' ! 2 = ''naruto'' \<and>
   buildComposite dec_string ''naruto'' (Num 2) (Num 7) = ''naruto-2x7'' \<and>
   http_get_page
     (example_env (only_page ''https://watchanimeworld.in/episode/naruto-2x7/'' ''<options>'') no_api None)
     ''https://watchanimeworld.in/episode/naruto-2x7/'' () = (Inr ''<options>'', ()) \<and>
   getEmbedByDataIdAndEpisode
     (example_env (only_page ''https://watchanimeworld.in/episode/naruto-2x7/'' ''<options>'') no_api None)
     ''20333'' (Num 2) (Num 7) ((), []) =
     (Inl (Error ''Could not find any page for data_id: 20333''),
      ((), [api_url,
            ''https://watchanimeworld.in/episode/one-punch-man-2x7/'',
            ''https://watchanimeworld.in/series/one-punch-man/'',
            ''https://watchanimeworld.in/movies/one-punch-man/'',
            ''https://watchanimeworld.in/series/one-piece/'',
            ''https://watchanimeworld.in/movies/one-piece/'',
            ''https://watchanimeworld.in/series/naruto/'',
            ''https://watchanimeworld.in/movies/naruto/'',
            ''https://watchanimeworld.in/series/bleach/'',
            ''https://watchanimeworld.in/movies/bleach/'',
            ''https://watchanimeworld.in/series/demon-slayer/'',
            ''https://watchanimeworld.in/movies/demon-slayer/'',
            ''https://watchanimeworld.in/series/jujutsu-kaisen/'',
            ''https://watchanimeworld.in/movies/jujutsu-kaisen/'',
            ''https://watchanimeworld.in/series/attack-on-titan/'',
            ''https://watchanimeworld.in/movies/attack-on-titan/'',
            ''https://watchanimeworld.in/series/my-hero-academia/'',
            ''https://watchanimeworld.in/movies/my-hero-academia/'',
            ''https://watchanimeworld.in/series/dragon-ball-super/'',
            ''https://watchanimeworld.in/movies/dragon-ball-super/'',
            ''https://watchanimeworld.in/series/spy-x-family/'',
            ''https://watchanimeworld.in/movies/spy-x-family/'',
            ''https://watchanimeworld.in/series/fire-force/'',
            ''https://watchanimeworld.in/movies/fire-force/'',
            ''https://watchanimeworld.in/series/chainsaw-man/'',
            ''https://watchanimeworld.in/movies/chainsaw-man/'',
            ''https://watchanimeworld.in/series/hunter-x-hunter/'',
            ''https://watchanimeworld.in/movies/hunter-x-hunter/'',
            ''https://watchanimeworld.in/series/solo-leveling/'',
            ''https://watchanimeworld.in/movies/solo-leveling/'']))"
  by (simp add: getEmbedByDataIdAndEpisode_def example_no_title fetchByPatterns_flat
      example_attempt_urls try_urls_only_page_miss Error_def del: try_urls.simps(2))
     (simp add: constructCommonSeriesIds_def buildComposite_def number_to_string_def
        dec_string.simps char_of_eq_iff example_env_sel only_page_def)

end
